theory Spec2Isabelle
  imports Main
begin

section \<open>The browser environment\<close>

text \<open>
  The scripts of the portal are event handlers: each reads its form fields, may issue
  one or more \<^verbatim>\<open>fetch\<close> calls, and writes to \<^verbatim>\<open>localStorage\<close>, to
  \<^verbatim>\<open>window.location.href\<close>, to the DOM and to \<^verbatim>\<open>alert\<close>. A handler is modelled
  as a function from its inputs (the field values at the time of the event and the
  outcome of every \<^verbatim>\<open>fetch\<close> it awaits) and the page before the event to the page
  after the handler has run to completion.

  Strings: a user-entered string is a list of characters, one per code unit of the
  JavaScript string (\<^verbatim>\<open>length\<close> counts code units). Literal text of the scripts beyond
  ASCII (the symbols in front of the messages) is written as its UTF-8 bytes; no length
  of such text is ever taken. \<^verbatim>\<open>console.log\<close> and \<^verbatim>\<open>console.error\<close> are not recorded.
\<close>

subsection \<open>Symbols used in messages\<close>

definition cross_mark :: string where
  "cross_mark = [CHR 0xE2, CHR 0x9D, CHR 0x8C]"

definition check_mark :: string where
  "check_mark = [CHR 0xE2, CHR 0x9C, CHR 0x85]"

definition warning_sign :: string where
  "warning_sign = [CHR 0xE2, CHR 0x9A, CHR 0xA0, CHR 0xEF, CHR 0xB8, CHR 0x8F]"

definition airplane :: string where
  "airplane = [CHR 0xE2, CHR 0x9C, CHR 0x88, CHR 0xEF, CHR 0xB8, CHR 0x8F]"

definition clock_symbol :: string where
  "clock_symbol = [CHR 0xF0, CHR 0x9F, CHR 0x95, CHR 0x92]"

definition pin_symbol :: string where
  "pin_symbol = [CHR 0xF0, CHR 0x9F, CHR 0x93, CHR 0x8D]"

definition envelope_symbol :: string where
  "envelope_symbol = [CHR 0xF0, CHR 0x9F, CHR 0x93, CHR 0xA7]"

definition person_symbol :: string where
  "person_symbol = [CHR 0xF0, CHR 0x9F, CHR 0x91, CHR 0xA4]"

definition phone_symbol :: string where
  "phone_symbol = [CHR 0xF0, CHR 0x9F, CHR 0x93, CHR 0xB1]"

definition calendar_symbol :: string where
  "calendar_symbol = [CHR 0xF0, CHR 0x9F, CHR 0x93, CHR 0x85]"

definition tick_symbol :: string where
  "tick_symbol = [CHR 0xE2, CHR 0x9C, CHR 0x93]"

definition ballot_symbol :: string where
  "ballot_symbol = [CHR 0xE2, CHR 0x9C, CHR 0x97]"

subsection \<open>Requests and responses\<close>

datatype http_method = GET | POST | PUT | DELETE

text \<open>
  A value of a request body as \<^verbatim>\<open>JSON.stringify\<close> writes it. \<open>JInexact\<close> is what is
  written for a number that the model does not follow (see \<open>Unsafe\<close> below): some
  digits, or \<^verbatim>\<open>null\<close> for an infinity.
\<close>

datatype json = JString string | JNumber int | JNull | JInexact

record upload_file =
  file_type :: string
  file_size :: nat

datatype req_body = NoBody | JsonBody "(string \<times> json) list" | FormData "(string \<times> upload_file) list"

record request =
  url :: string
  request_method :: http_method
  headers :: "(string \<times> string) list"
  body :: req_body

text \<open>
  The user object of the API, and the fields of a JSON reply that the scripts read.
  Replies are taken to be JSON objects of the documented shapes; a body that is not JSON
  at all is \<open>BadJson\<close>, carrying the message of the error that \<^verbatim>\<open>response.json()\<close>
  raises. A field of a reply is absent (\<^verbatim>\<open>undefined\<close>), \<^verbatim>\<open>null\<close>, or has a value: the
  scripts print the first two differently. The optional fields of a user and of a log
  entry are only tested for truth, where absent and \<^verbatim>\<open>null\<close> agree: both are \<open>None\<close>.
\<close>

datatype 'a field = Undefined | Null | Value 'a

record user =
  user_id :: int
  email :: string
  full_name :: string
  role :: string
  phone :: "string option"
  profile_photo :: "string option"
  is_verified :: bool
  created_at :: "string option"
  last_login :: "string option"

record reply =
  detail :: "string field"
  message :: "string field"
  access_token :: "string field"
  user :: "user field"

datatype 'a payload = BadJson string | Json 'a

text \<open>
  The outcome of an awaited \<^verbatim>\<open>fetch\<close>: the promise rejects with an error message
  (no response), or resolves to a response with a status code and a body. A call that
  never settles is outside the model.
\<close>

datatype 'a fetch_result = Rejected string | Response nat "'a payload"

definition ok :: "nat \<Rightarrow> bool" where
  "ok status_code \<longleftrightarrow> 200 \<le> status_code \<and> status_code \<le> 299"

subsection \<open>The page\<close>

text \<open>
  \<open>localStorage\<close> maps a key to the string stored under it. \<open>href\<close> is the last URL assigned to \<^verbatim>\<open>window.location.href\<close> (\<open>None\<close>: no
  navigation was requested); \<open>alerts\<close> and \<open>fetches\<close> list the messages shown and the
  network calls issued, oldest first; \<open>submit_disabled\<close> and \<open>submit_text\<close> are the
  two properties of the form's submit button; \<open>dom\<close> maps an element id and a property
  name to the value a script wrote there; \<open>absent\<close> holds the ids of elements missing
  from the markup, consulted where the script itself checks for \<^verbatim>\<open>null\<close>.
\<close>

record page =
  localStorage :: "string \<rightharpoonup> string"
  href :: "string option"
  alerts :: "string list"
  fetches :: "request list"
  submit_disabled :: bool
  submit_text :: string
  dom :: "string \<times> string \<rightharpoonup> string"
  absent :: "string set"

definition alert :: "string \<Rightarrow> page \<Rightarrow> page" where
  "alert msg p = p\<lparr>alerts := alerts p @ [msg]\<rparr>"

definition navigate :: "string \<Rightarrow> page \<Rightarrow> page" where
  "navigate u p = p\<lparr>href := Some u\<rparr>"

definition fetch :: "request \<Rightarrow> page \<Rightarrow> page" where
  "fetch rq p = p\<lparr>fetches := fetches p @ [rq]\<rparr>"

definition setItem :: "string \<Rightarrow> string \<Rightarrow> page \<Rightarrow> page" where
  "setItem k v p = p\<lparr>localStorage := (localStorage p)(k \<mapsto> v)\<rparr>"

definition removeItem :: "string \<Rightarrow> page \<Rightarrow> page" where
  "removeItem k p = p\<lparr>localStorage := (localStorage p)(k := None)\<rparr>"

definition set_prop :: "string \<Rightarrow> string \<Rightarrow> string \<Rightarrow> page \<Rightarrow> page" where
  "set_prop el prop v p = p\<lparr>dom := (dom p)((el, prop) \<mapsto> v)\<rparr>"

definition disable_submit :: "string \<Rightarrow> page \<Rightarrow> page" where
  "disable_submit caption p = p\<lparr>submit_disabled := True, submit_text := caption\<rparr>"

definition restore_submit :: "string \<Rightarrow> page \<Rightarrow> page" where
  "restore_submit originalText p = p\<lparr>submit_disabled := False, submit_text := originalText\<rparr>"

subsection \<open>JavaScript idioms\<close>

text \<open>\<^verbatim>\<open>x || d\<close> on an optional string: the default when \<open>x\<close> is absent or empty.\<close>

definition or_else :: "string option \<Rightarrow> string \<Rightarrow> string" where
  "or_else x d = (case x of None \<Rightarrow> d | Some s \<Rightarrow> if s = [] then d else s)"

text \<open>\<^verbatim>\<open>x || d\<close> on a field of a reply: the default when \<open>x\<close> is absent, \<^verbatim>\<open>null\<close> or empty.\<close>

definition or_default :: "string field \<Rightarrow> string \<Rightarrow> string" where
  "or_default x d = (case x of Undefined \<Rightarrow> d | Null \<Rightarrow> d | Value s \<Rightarrow> if s = [] then d else s)"

text \<open>
  A field of a reply turned into a string, by concatenation or by \<^verbatim>\<open>setItem\<close>: an
  absent one gives the word \<^verbatim>\<open>undefined\<close>, \<^verbatim>\<open>null\<close> the word \<^verbatim>\<open>null\<close>.
\<close>

definition str_of :: "string field \<Rightarrow> string" where
  "str_of x = (case x of Undefined \<Rightarrow> ''undefined'' | Null \<Rightarrow> ''null'' | Value s \<Rightarrow> s)"

text \<open>
  \<^verbatim>\<open>JSON.parse\<close> belongs to the engine and is an argument of the handler that calls it.
  On a stored text it raises a SyntaxError (whose message is carried), yields \<^verbatim>\<open>null\<close>,
  or yields a value. For a value the carried function gives the text that
  \<^verbatim>\<open>JSON.stringify\<close> writes for it, after \<^verbatim>\<open>full_name\<close> has been assigned (\<open>Some\<close> of the
  new name) or as it is (\<open>None\<close>); for a number, a string or a boolean the assignment is
  ignored and the function gives the same text in both cases. \<^verbatim>\<open>JSON.stringify\<close> of a
  user object is an argument likewise.
\<close>

datatype parsed = Raises string | ParsedNull | ParsedValue "string option \<Rightarrow> string"

text \<open>
  The token is bound once when the page loads (\<^verbatim>\<open>localStorage.getItem\<close> or the
  URL parameter): a string or \<^verbatim>\<open>null\<close>.
\<close>

definition bearer :: "string option \<Rightarrow> string \<times> string" where
  "bearer token = (''Authorization'', ''Bearer '' @ (case token of None \<Rightarrow> ''null'' | Some t \<Rightarrow> t))"

definition json_content :: "string \<times> string" where
  "json_content = (''Content-Type'', ''application/json'')"

definition json_of :: "string option \<Rightarrow> json" where
  "json_of x = (case x of None \<Rightarrow> JNull | Some s \<Rightarrow> JString s)"

text \<open>
  \<^verbatim>\<open>await fetch(...)\<close> followed at once by \<^verbatim>\<open>await response.json()\<close> inside one
  \<^verbatim>\<open>try\<close>: either step may raise, and the \<^verbatim>\<open>catch\<close> block receives the message.
\<close>

fun settled :: "'a fetch_result \<Rightarrow> string + (nat \<times> 'a)" where
  "settled (Rejected msg) = Inl msg"
| "settled (Response status_code (BadJson msg)) = Inl msg"
| "settled (Response status_code (Json data)) = Inr (status_code, data)"

text \<open>
  \<^verbatim>\<open>String.prototype.trim\<close> and the white space that \<^verbatim>\<open>parseInt\<close> skips, on code
  units below 256: tab, line feed, vertical tab, form feed, carriage return, space and
  the no-break space.
\<close>

definition is_space :: "char \<Rightarrow> bool" where
  "is_space c \<longleftrightarrow> (of_char c :: nat) \<in> {9, 10, 11, 12, 13, 32, 160}"

definition trim :: "string \<Rightarrow> string" where
  "trim s = rev (dropWhile is_space (rev (dropWhile is_space s)))"

text \<open>
  \<^verbatim>\<open>String.prototype.toLowerCase\<close> on code units below 256: the ASCII capitals and
  the Latin-1 capitals (all of 192 to 222 but the multiplication sign) move up by 32.
\<close>

definition lower_char :: "char \<Rightarrow> char" where
  "lower_char c =
    (let n = (of_char c :: nat)
     in if (65 \<le> n \<and> n \<le> 90) \<or> (192 \<le> n \<and> n \<le> 222 \<and> n \<noteq> 215) then char_of (n + 32) else c)"

definition toLowerCase :: "string \<Rightarrow> string" where
  "toLowerCase s = map lower_char s"

text \<open>
  Numbers. The scripts parse integers, add them and test them for truth. JavaScript
  numbers are doubles, which hold every integer up to \<^verbatim>\<open>Number.MAX_SAFE_INTEGER\<close>
  (\<open>2 ^ 53 - 1\<close>) exactly and add such integers exactly while the sum stays in that
  range. A number is therefore a safe integer, \<^verbatim>\<open>NaN\<close>, or \<open>Unsafe\<close>: a value outside
  the safe integers (a rounded integer or an infinity) or computed from one, which the
  model does not follow any further.
\<close>

definition MAX_SAFE_INTEGER :: int where
  "MAX_SAFE_INTEGER = 9007199254740991"

datatype number = Num int | NaN | Unsafe

definition safe :: "int \<Rightarrow> number" where
  "safe n = (if - MAX_SAFE_INTEGER \<le> n \<and> n \<le> MAX_SAFE_INTEGER then Num n else Unsafe)"

fun plus_number :: "number \<Rightarrow> number \<Rightarrow> number" where
  "plus_number NaN _ = NaN"
| "plus_number _ NaN = NaN"
| "plus_number (Num a) (Num b) = safe (a + b)"
| "plus_number _ _ = Unsafe"

text \<open>\<^verbatim>\<open>n || 0\<close>: zero replaces \<^verbatim>\<open>NaN\<close> (and zero itself).\<close>

fun or_zero :: "number \<Rightarrow> number" where
  "or_zero (Num n) = Num n"
| "or_zero NaN = Num 0"
| "or_zero Unsafe = Unsafe"

text \<open>\<^verbatim>\<open>n || null\<close> and \<^verbatim>\<open>JSON.stringify\<close> of a number: \<^verbatim>\<open>NaN\<close> is written as \<^verbatim>\<open>null\<close>.\<close>

fun or_null :: "number \<Rightarrow> json" where
  "or_null (Num n) = (if n = 0 then JNull else JNumber n)"
| "or_null NaN = JNull"
| "or_null Unsafe = JInexact"

fun stringify_number :: "number \<Rightarrow> json" where
  "stringify_number (Num n) = JNumber n"
| "stringify_number NaN = JNull"
| "stringify_number Unsafe = JInexact"

text \<open>
  \<^verbatim>\<open>parseInt(s)\<close> with no radix: skip leading white space, read a sign, take radix 16
  after a prefix \<^verbatim>\<open>0x\<close> or \<^verbatim>\<open>0X\<close> and radix 10 otherwise, and read the longest run
  of digits of that radix; with no digit the result is \<^verbatim>\<open>NaN\<close>.
\<close>

definition digit_value :: "char \<Rightarrow> nat option" where
  "digit_value c =
    (let n = (of_char c :: nat)
     in if 48 \<le> n \<and> n \<le> 57 then Some (n - 48)
        else if 97 \<le> n \<and> n \<le> 122 then Some (n - 87)
        else if 65 \<le> n \<and> n \<le> 90 then Some (n - 55)
        else None)"

definition is_digit :: "nat \<Rightarrow> char \<Rightarrow> bool" where
  "is_digit radix c = (case digit_value c of None \<Rightarrow> False | Some d \<Rightarrow> d < radix)"

definition digits_value :: "nat \<Rightarrow> string \<Rightarrow> nat" where
  "digits_value radix ds = foldl (\<lambda>acc c. acc * radix + (case digit_value c of None \<Rightarrow> 0 | Some d \<Rightarrow> d)) 0 ds"

definition parse_digits :: "nat \<Rightarrow> string \<Rightarrow> nat option" where
  "parse_digits radix s =
    (let ds = takeWhile (is_digit radix) s
     in if ds = [] then None else Some (digits_value radix ds))"

definition parseInt :: "string \<Rightarrow> number" where
  "parseInt s =
    (let s1 = dropWhile is_space s;
         negative = (take 1 s1 = ''-'');
         s2 = (if take 1 s1 = ''-'' \<or> take 1 s1 = ''+'' then drop 1 s1 else s1);
         hex = (take 2 s2 = ''0x'' \<or> take 2 s2 = ''0X'');
         parsed = (if hex then parse_digits 16 (drop 2 s2) else parse_digits 10 s2)
     in case parsed of
          None \<Rightarrow> NaN
        | Some n \<Rightarrow> safe (if negative then - int n else int n))"

text \<open>An integer spliced into a template string: its decimal digits.\<close>

fun show_nat :: "nat \<Rightarrow> string" where
  "show_nat n =
    (if n < 10 then [''0123456789'' ! n] else show_nat (n div 10) @ [''0123456789'' ! (n mod 10)])"

declare show_nat.simps [simp del]

definition show_int :: "int \<Rightarrow> string" where
  "show_int i = (if i < 0 then ''-'' @ show_nat (nat (- i)) else show_nat (nat i))"

text \<open>
  A number turned into a string. \<open>unsafe_text\<close> is the text that the engine gives for
  the number at hand when it lies outside the safe integers.
\<close>

fun show_number :: "string \<Rightarrow> number \<Rightarrow> string" where
  "show_number unsafe_text (Num n) = show_int n"
| "show_number unsafe_text NaN = ''NaN''"
| "show_number unsafe_text Unsafe = unsafe_text"

section \<open>Aircraft administration (unnamed/part_000)\<close>

definition API_URL :: string where
  "API_URL = ''http://127.0.0.1:8000/api''"

record aircraft =
  aircraft_id :: int
  aircraft_number :: string
  manufacturer :: string
  model :: string
  manufacturing_year :: "int option"
  economy_seats :: int
  business_seats :: int
  first_class_seats :: int
  total_seats :: int
  status :: string

text \<open>\<^verbatim>\<open>a.manufacturing_year || 'N/A'\<close>: a missing year and the year zero print as N/A.\<close>

definition year_or_NA :: "int option \<Rightarrow> string" where
  "year_or_NA y = (case y of None \<Rightarrow> ''N/A'' | Some n \<Rightarrow> if n = 0 then ''N/A'' else show_int n)"

definition aircraft_empty_state :: "string" where
  \<open>aircraft_empty_state =
     ''\<newline>            <div class="empty-state">''
     @ ''\<newline>                <div class="empty-state-icon">''
     @ airplane
     @ ''</div>''
     @ ''\<newline>                <p>No aircraft found. Click "Add New Aircraft" to add one.</p>''
     @ ''\<newline>            </div>''
     @ ''\<newline>        ''\<close>

definition aircraft_load_error :: "string \<Rightarrow> string" where
  \<open>aircraft_load_error msg =
     ''\<newline>            <div class="empty-state">''
     @ ''\<newline>                <div class="empty-state-icon">''
     @ cross_mark
     @ ''</div>''
     @ ''\<newline>                <p>Error loading aircraft: ''
     @ msg
     @ ''</p>''
     @ ''\<newline>            </div>''
     @ ''\<newline>        ''\<close>

definition aircraft_card :: "aircraft \<Rightarrow> string" where
  \<open>aircraft_card a =
     ''\<newline>        <div class="aircraft-card">''
     @ ''\<newline>            <div class="aircraft-header">''
     @ ''\<newline>                <div class="aircraft-number">''
     @ aircraft_number a
     @ ''</div>''
     @ ''\<newline>                <div class="aircraft-status status-''
     @ status a
     @ ''">''
     @ status a
     @ ''</div>''
     @ ''\<newline>            </div>''
     @ ''\<newline>            <div class="aircraft-info">''
     @ ''\<newline>                <div class="info-row">''
     @ ''\<newline>                    <span class="info-label">Manufacturer</span>''
     @ ''\<newline>                    <span class="info-value">''
     @ manufacturer a
     @ ''</span>''
     @ ''\<newline>                </div>''
     @ ''\<newline>                <div class="info-row">''
     @ ''\<newline>                    <span class="info-label">Model</span>''
     @ ''\<newline>                    <span class="info-value">''
     @ model a
     @ ''</span>''
     @ ''\<newline>                </div>''
     @ ''\<newline>                <div class="info-row">''
     @ ''\<newline>                    <span class="info-label">Year</span>''
     @ ''\<newline>                    <span class="info-value">''
     @ year_or_NA (manufacturing_year a)
     @ ''</span>''
     @ ''\<newline>                </div>''
     @ ''\<newline>                <div class="info-row">''
     @ ''\<newline>                    <span class="info-label">Total Capacity</span>''
     @ ''\<newline>                    <span class="info-value">''
     @ show_int (total_seats a)
     @ '' seats</span>''
     @ ''\<newline>                </div>''
     @ ''\<newline>            </div>''
     @ ''\<newline>            <div class="seat-breakdown">''
     @ ''\<newline>                <div class="seat-type">''
     @ ''\<newline>                    <div class="seat-type-label">Economy</div>''
     @ ''\<newline>                    <div class="seat-type-value">''
     @ show_int (economy_seats a)
     @ ''</div>''
     @ ''\<newline>                </div>''
     @ ''\<newline>                <div class="seat-type">''
     @ ''\<newline>                    <div class="seat-type-label">Business</div>''
     @ ''\<newline>                    <div class="seat-type-value">''
     @ show_int (business_seats a)
     @ ''</div>''
     @ ''\<newline>                </div>''
     @ ''\<newline>                <div class="seat-type">''
     @ ''\<newline>                    <div class="seat-type-label">First</div>''
     @ ''\<newline>                    <div class="seat-type-value">''
     @ show_int (first_class_seats a)
     @ ''</div>''
     @ ''\<newline>                </div>''
     @ ''\<newline>            </div>''
     @ ''\<newline>            <div class="aircraft-actions">''
     @ ''\<newline>                <button class="btn btn-warning btn-small" style="flex: 1;" onclick="editAircraft(''
     @ show_int (aircraft_id a)
     @ '')">Edit</button>''
     @ ''\<newline>                <button class="btn btn-secondary btn-small" onclick="changeStatus(''
     @ show_int (aircraft_id a)
     @ '', ''
     @ [CHR 0x27]
     @ status a
     @ [CHR 0x27]
     @ '')">Change Status</button>''
     @ ''\<newline>            </div>''
     @ ''\<newline>        </div>''
     @ ''\<newline>    ''\<close>

text \<open>
  The form is read through \<^verbatim>\<open>document.getElementById(id).value\<close>: \<open>form\<close> maps the id
  of an input to the text it holds.
\<close>

definition calculateTotalSeats :: "string \<Rightarrow> (string \<Rightarrow> string) \<Rightarrow> page \<Rightarrow> page" where
  "calculateTotalSeats unsafe_text form p =
    (let economy = or_zero (parseInt (form ''economy_seats''));
         business = or_zero (parseInt (form ''business_seats''));
         first = or_zero (parseInt (form ''first_class_seats''));
         total = plus_number (plus_number economy business) first
     in if ''totalSeatsCalc'' \<notin> absent p
        then set_prop ''totalSeatsCalc'' ''textContent'' (show_number unsafe_text total) p
        else p)"

text \<open>The fragment that \<open>displayAircraft\<close> writes into the grid.\<close>

definition aircraft_grid_html :: "aircraft list \<Rightarrow> string" where
  "aircraft_grid_html aircraft =
    (if length aircraft = 0 then aircraft_empty_state
     else concat (map aircraft_card aircraft))"

definition displayAircraft :: "aircraft list \<Rightarrow> page \<Rightarrow> page" where
  "displayAircraft aircraft p =
    (if ''aircraftGrid'' \<in> absent p then p
     else set_prop ''aircraftGrid'' ''innerHTML'' (aircraft_grid_html aircraft) p)"

text \<open>\<open>toLocaleString\<close> is the browser's locale formatting of a number.\<close>

definition updateStats :: "(int \<Rightarrow> string) \<Rightarrow> aircraft list \<Rightarrow> page \<Rightarrow> page" where
  "updateStats toLocaleString aircraft p =
    (let total = int (length aircraft);
         active = int (length (filter (\<lambda>a. status a = ''active'') aircraft));
         totalSeats = foldl (\<lambda>sum a. sum + total_seats a) 0 aircraft;
         p1 = (if ''totalAircraft'' \<notin> absent p
               then set_prop ''totalAircraft'' ''textContent'' (show_int total) p else p);
         p2 = (if ''activeAircraft'' \<notin> absent p1
               then set_prop ''activeAircraft'' ''textContent'' (show_int active) p1 else p1)
     in if ''totalSeats'' \<notin> absent p2
        then set_prop ''totalSeats'' ''textContent'' (toLocaleString totalSeats) p2 else p2)"

definition loadAircraft_request :: "page \<Rightarrow> page" where
  "loadAircraft_request p =
    fetch \<lparr>url = API_URL @ ''/flights/aircraft'', request_method = GET, headers = [], body = NoBody\<rparr> p"

definition loadAircraft_response ::
  "(int \<Rightarrow> string) \<Rightarrow> aircraft list fetch_result \<Rightarrow> page \<Rightarrow> page" where
  "loadAircraft_response toLocaleString r p =
    (let failed = (\<lambda>msg. set_prop ''aircraftGrid'' ''innerHTML'' (aircraft_load_error msg) p)
     in case r of
          Rejected msg \<Rightarrow> failed msg
        | Response status_code content \<Rightarrow>
            if \<not> ok status_code then failed ''Failed to load aircraft''
            else (case content of
                    BadJson msg \<Rightarrow> failed msg
                  | Json aircraft \<Rightarrow> updateStats toLocaleString aircraft (displayAircraft aircraft p)))"

definition loadAircraft :: "(int \<Rightarrow> string) \<Rightarrow> aircraft list fetch_result \<Rightarrow> page \<Rightarrow> page" where
  "loadAircraft toLocaleString r p = loadAircraft_response toLocaleString r (loadAircraft_request p)"

definition closeModal :: "page \<Rightarrow> page" where
  "closeModal p = set_prop ''aircraftModal'' ''style.display'' ''none'' p"

definition showLoading :: "page \<Rightarrow> page" where
  "showLoading p =
    (if ''loadingOverlay'' \<notin> absent p then set_prop ''loadingOverlay'' ''style.display'' ''flex'' p else p)"

definition hideLoading :: "page \<Rightarrow> page" where
  "hideLoading p =
    (if ''loadingOverlay'' \<notin> absent p then set_prop ''loadingOverlay'' ''style.display'' ''none'' p else p)"

text \<open>
  Changing the status. \<open>answer\<close> is what \<^verbatim>\<open>prompt\<close> returns: \<open>None\<close> when the dialog is
  cancelled, the entered text otherwise. \<open>loadAircraft\<close> is called without \<^verbatim>\<open>await\<close>.
\<close>

definition statuses :: "string list" where
  "statuses = [''active'', ''maintenance'', ''retired'']"

definition changeStatus ::
  "string option \<Rightarrow> int \<Rightarrow> string \<Rightarrow> string option \<Rightarrow> reply fetch_result \<Rightarrow> page \<Rightarrow> page" where
  "changeStatus token ident currentStatus answer r p =
    (case answer of
       None \<Rightarrow> alert ''Invalid status'' p
     | Some newStatus \<Rightarrow>
         if newStatus = [] \<or> toLowerCase newStatus \<notin> set statuses then alert ''Invalid status'' p
         else
           let p1 = showLoading p;
               p2 = fetch \<lparr>url = API_URL @ ''/flights/aircraft/'' @ show_int ident, request_method = PUT,
                           headers = [json_content, bearer token],
                           body = JsonBody [(''status'', JString (toLowerCase newStatus))]\<rparr> p1;
               failed = (\<lambda>msg. alert (''Error updating status: '' @ msg) p2);
               p3 = (case r of
                       Rejected msg \<Rightarrow> failed msg
                     | Response status_code content \<Rightarrow>
                         if \<not> ok status_code then
                           (case content of
                              BadJson msg \<Rightarrow> failed msg
                            | Json error \<Rightarrow> failed (or_default (detail error) ''Failed to update status''))
                         else loadAircraft_request (alert ''Status updated successfully!'' p2))
           in hideLoading p3)"

text \<open>
  Saving the form. \<open>editingAircraftId\<close> is the variable of that name (\<open>None\<close> for
  \<^verbatim>\<open>null\<close>), tested for truth, so that the id zero counts as none. \<open>checkValidity\<close> is
  the browser's \<^verbatim>\<open>form.checkValidity()\<close>: it judges the fields of the form by the
  constraints declared in the page's markup, which is not among the sources. On an
  invalid form the browser shows its own validation messages, which are not recorded.
\<close>

definition saveAircraft ::
  "string option \<Rightarrow> int option \<Rightarrow> ((string \<Rightarrow> string) \<Rightarrow> bool) \<Rightarrow> (string \<Rightarrow> string)
     \<Rightarrow> reply fetch_result \<Rightarrow> page \<Rightarrow> page" where
  "saveAircraft token editingAircraftId checkValidity form r p =
    (if \<not> checkValidity form then p
     else
       let economy = parseInt (form ''economy_seats'');
           business = parseInt (form ''business_seats'');
           first = parseInt (form ''first_class_seats'');
           aircraftData =
             [(''aircraft_number'', JString (form ''aircraft_number'')),
              (''manufacturer'', JString (form ''manufacturer'')),
              (''model'', JString (form ''model'')),
              (''manufacturing_year'', or_null (parseInt (form ''manufacturing_year''))),
              (''economy_seats'', stringify_number economy),
              (''business_seats'', stringify_number business),
              (''first_class_seats'', stringify_number first),
              (''total_seats'', stringify_number (plus_number (plus_number economy business) first)),
              (''status'', JString (form ''status''))];
           editing = (case editingAircraftId of None \<Rightarrow> None | Some n \<Rightarrow> if n = 0 then None else Some n);
           p1 = showLoading p;
           p2 = fetch \<lparr>url = (case editing of
                                Some n \<Rightarrow> API_URL @ ''/flights/aircraft/'' @ show_int n
                              | None \<Rightarrow> API_URL @ ''/flights/aircraft''),
                       request_method = (case editing of Some n \<Rightarrow> PUT | None \<Rightarrow> POST),
                       headers = [json_content, bearer token],
                       body = JsonBody aircraftData\<rparr> p1;
           failed = (\<lambda>msg. alert (''Error: '' @ msg) p2);
           p3 = (case r of
                   Rejected msg \<Rightarrow> failed msg
                 | Response status_code content \<Rightarrow>
                     if \<not> ok status_code then
                       (case content of
                          BadJson msg \<Rightarrow> failed msg
                        | Json error \<Rightarrow> failed (or_default (detail error) ''Failed to save aircraft''))
                     else
                       loadAircraft_request
                         (closeModal
                            (alert (case editing of
                                      Some n \<Rightarrow> ''Aircraft updated successfully!''
                                    | None \<Rightarrow> ''Aircraft created successfully!'') p2)))
       in hideLoading p3)"

definition logout :: "page \<Rightarrow> page" where
  "logout p = navigate ''/login'' (removeItem ''user'' (removeItem ''access_token'' p))"

section \<open>Forgot password and login (unnamed/part_001)\<close>

definition forgot_password_submit :: "string \<Rightarrow> reply fetch_result \<Rightarrow> page \<Rightarrow> page" where
  "forgot_password_submit email_value r p =
    (let email = trim email_value
     in if email = [] then
          alert (cross_mark @ '' Please enter your email address!'') p
        else
          let originalText = submit_text p;
              p1 = disable_submit ''Sending...'' p;
              p2 = fetch \<lparr>url = ''/api/forgot-password'', request_method = POST,
                          headers = [json_content],
                          body = JsonBody [(''email'', JString email)]\<rparr> p1;
              p3 = (case settled r of
                      Inl msg \<Rightarrow> alert (cross_mark @ '' Network error: '' @ msg) p2
                    | Inr (status_code, data) \<Rightarrow>
                        if ok status_code then
                          set_prop ''email'' ''value'' []
                            (alert (check_mark @ '' '' @ str_of (message data)
                               @ ''\<newline>\<newline>Please check your email (or terminal console in development mode) for the password reset link.'') p2)
                        else
                          alert (cross_mark @ '' Error: '' @ or_default (detail data) ''Failed to send reset email'') p2)
          in restore_submit originalText p3)"

text \<open>
  On a successful login both keys are written, then the greeting reads
  \<^verbatim>\<open>data.user.full_name\<close>. When the reply has no \<^verbatim>\<open>user\<close>, \<^verbatim>\<open>JSON.stringify\<close>
  yields \<^verbatim>\<open>undefined\<close>, which \<^verbatim>\<open>setItem\<close> stores as the text of that word; when the
  \<^verbatim>\<open>user\<close> is \<^verbatim>\<open>null\<close>, the text \<^verbatim>\<open>null\<close> is stored. In both cases the property read
  raises a TypeError that the \<^verbatim>\<open>catch\<close> block reports; its message is the engine's own
  wording, the argument \<open>type_error\<close>. \<open>JSON_stringify\<close> is the engine's
  \<^verbatim>\<open>JSON.stringify\<close> on user objects.
\<close>

definition login_submit ::
  "(user \<Rightarrow> string) \<Rightarrow> string \<Rightarrow> string \<Rightarrow> string \<Rightarrow> reply fetch_result \<Rightarrow> page \<Rightarrow> page" where
  "login_submit JSON_stringify type_error email_value password_value r p =
    (let email = trim email_value; password = password_value
     in if email = [] \<or> password = [] then
          alert (cross_mark @ '' Please fill in all fields!'') p
        else
          let originalText = submit_text p;
              p1 = disable_submit ''Logging in...'' p;
              p2 = fetch \<lparr>url = ''/api/login'', request_method = POST,
                          headers = [json_content],
                          body = JsonBody [(''email'', JString email),
                                           (''password'', JString password)]\<rparr> p1;
              network_error = (\<lambda>msg q. restore_submit originalText
                 (alert (cross_mark @ '' Network error: '' @ msg
                    @ ''\<newline>\<newline>Please check your connection and try again.'') q))
          in case settled r of
               Inl msg \<Rightarrow> network_error msg p2
             | Inr (status_code, data) \<Rightarrow>
                 if ok status_code then
                   let p3 = setItem ''access_token'' (str_of (access_token data)) p2
                   in case user data of
                        Undefined \<Rightarrow> network_error type_error (setItem ''user'' ''undefined'' p3)
                      | Null \<Rightarrow> network_error type_error (setItem ''user'' ''null'' p3)
                      | Value u \<Rightarrow>
                          navigate ''/dashboard''
                            (alert (check_mark @ '' Login successful! Welcome back, '' @ full_name u @ ''!'')
                               (setItem ''user'' (JSON_stringify u) p3))
                 else
                   restore_submit originalText
                     (alert (cross_mark @ '' Error: '' @ or_default (detail data) ''Invalid email or password'') p2))"

section \<open>Reset password (reset-password.js)\<close>

definition reset_password_submit ::
  "string option \<Rightarrow> string \<Rightarrow> string \<Rightarrow> reply fetch_result \<Rightarrow> page \<Rightarrow> page" where
  "reset_password_submit token password confirmPassword r p =
    (if length password < 6 then
       alert (cross_mark @ '' Password must be at least 6 characters long!'') p
     else if password \<noteq> confirmPassword then
       alert (cross_mark @ '' Passwords do not match!'') p
     else
       let originalText = submit_text p;
           p1 = disable_submit ''Resetting...'' p;
           p2 = fetch \<lparr>url = ''/api/reset-password'', request_method = POST,
                       headers = [json_content],
                       body = JsonBody [(''token'', json_of token),
                                        (''new_password'', JString password)]\<rparr> p1
       in case settled r of
            Inl msg \<Rightarrow>
              restore_submit originalText (alert (cross_mark @ '' Network error: '' @ msg) p2)
          | Inr (status_code, data) \<Rightarrow>
              if ok status_code then
                navigate ''/login'' (alert (check_mark @ '' '' @ str_of (message data)) p2)
              else
                restore_submit originalText
                  (alert (cross_mark @ '' Error: '' @ or_default (detail data) ''Password reset failed'') p2))"

section \<open>Dashboard (dashboard.js)\<close>

text \<open>
  Dates are formatted by the browser's locale functions, which the scripts call with
  fixed options; they are the arguments \<open>toLocaleDateString\<close> and \<open>toLocaleString\<close>,
  from the text of a time stamp to its formatted text. An element that a script uses
  without checking for \<^verbatim>\<open>null\<close> is taken to exist.
\<close>

record activity_log =
  action :: string
  details :: "string option"
  timestamp :: string
  ip_address :: "string option"

definition activity_item :: "(string \<Rightarrow> string) \<Rightarrow> activity_log \<Rightarrow> string" where
  \<open>activity_item toLocaleString log =
     ''\<newline>                    <div class="activity-item">''
     @ ''\<newline>                        <strong>''
     @ action log
     @ ''</strong>''
     @ ''\<newline>                        <p>''
     @ or_else (details log) ''No details available''
     @ ''</p>''
     @ ''\<newline>                        <small>''
     @ clock_symbol
     @ '' ''
     @ toLocaleString (timestamp log)
     @ '' | ''
     @ pin_symbol
     @ '' ''
     @ or_else (ip_address log) ''Unknown''
     @ ''</small>''
     @ ''\<newline>                    </div>''
     @ ''\<newline>                ''\<close>

definition profile_photo_block :: "string \<Rightarrow> string" where
  \<open>profile_photo_block photo =
     ''\<newline>                        <div style="text-align: center; margin-bottom: 1.5rem;">''
     @ ''\<newline>                            <img src="''
     @ photo
     @ ''" alt="Profile Photo" style="width: 100px; height: 100px; border-radius: 50%; object-fit: cover; border: 3px solid #667eea; box-shadow: 0 4px 10px rgba(0,0,0,0.2);">''
     @ ''\<newline>                        </div>''
     @ ''\<newline>                    ''\<close>

definition user_info :: "string \<Rightarrow> string \<Rightarrow> user \<Rightarrow> string" where
  \<open>user_info createdDate lastLoginDate usr =
     ''\<newline>                <div style="padding: 1rem 0;">''
     @ ''\<newline>                    ''
     @ (if or_else (profile_photo usr) [] \<noteq> [] then profile_photo_block (or_else (profile_photo usr) []) else [])
     @ ''\<newline>                    <p style="margin-bottom: 0.8rem;">''
     @ ''\<newline>                        <strong style="color: #667eea;">''
     @ envelope_symbol
     @ '' Email:</strong> ''
     @ ''\<newline>                        <span style="color: #666;">''
     @ email usr
     @ ''</span>''
     @ ''\<newline>                    </p>''
     @ ''\<newline>                    <p style="margin-bottom: 0.8rem;">''
     @ ''\<newline>                        <strong style="color: #667eea;">''
     @ person_symbol
     @ '' Role:</strong> ''
     @ ''\<newline>                        <span style="color: #666; text-transform: capitalize;">''
     @ role usr
     @ ''</span>''
     @ ''\<newline>                    </p>''
     @ ''\<newline>                    <p style="margin-bottom: 0.8rem;">''
     @ ''\<newline>                        <strong style="color: #667eea;">''
     @ phone_symbol
     @ '' Phone:</strong> ''
     @ ''\<newline>                        <span style="color: #666;">''
     @ or_else (phone usr) ''Not provided''
     @ ''</span>''
     @ ''\<newline>                    </p>''
     @ ''\<newline>                    <p style="margin-bottom: 0.8rem;">''
     @ ''\<newline>                        <strong style="color: #667eea;">''
     @ check_mark
     @ '' Verified:</strong> ''
     @ ''\<newline>                        <span style="color: ''
     @ (if is_verified usr then ''#28a745'' else ''#dc3545'')
     @ '';">''
     @ (if is_verified usr then tick_symbol @ '' Yes'' else ballot_symbol @ '' No'')
     @ ''</span>''
     @ ''\<newline>                    </p>''
     @ ''\<newline>                    <p style="margin-bottom: 0.8rem;">''
     @ ''\<newline>                        <strong style="color: #667eea;">''
     @ calendar_symbol
     @ '' Member Since:</strong> ''
     @ ''\<newline>                        <span style="color: #666;">''
     @ createdDate
     @ ''</span>''
     @ ''\<newline>                    </p>''
     @ ''\<newline>                    <p style="margin-bottom: 0;">''
     @ ''\<newline>                        <strong style="color: #667eea;">''
     @ clock_symbol
     @ '' Last Login:</strong> ''
     @ ''\<newline>                        <span style="color: #666;">''
     @ lastLoginDate
     @ ''</span>''
     @ ''\<newline>                    </p>''
     @ ''\<newline>                </div>''
     @ ''\<newline>            ''\<close>

definition profile_error :: string where
  \<open>profile_error = ''<p style="color: #dc3545;">Error loading profile</p>''\<close>

definition dashboard_loadProfile ::
  "(string \<Rightarrow> string) \<Rightarrow> (string \<Rightarrow> string) \<Rightarrow> string option \<Rightarrow> user fetch_result \<Rightarrow> page \<Rightarrow> page" where
  "dashboard_loadProfile toLocaleDateString toLocaleString token r p =
    (let p1 = fetch \<lparr>url = ''/api/profile'', request_method = GET, headers = [bearer token], body = NoBody\<rparr> p;
         failed = set_prop ''userInfo'' ''innerHTML'' profile_error p1
     in case r of
          Rejected msg \<Rightarrow> failed
        | Response status_code content \<Rightarrow>
            if ok status_code then
              (case content of
                 BadJson msg \<Rightarrow> failed
               | Json usr \<Rightarrow>
                   let p2 = set_prop ''userName'' ''textContent'' (full_name usr) p1;
                       createdDate = (if or_else (created_at usr) [] \<noteq> []
                                      then toLocaleDateString (or_else (created_at usr) []) else ''N/A'');
                       lastLoginDate = (if or_else (last_login usr) [] \<noteq> []
                                        then toLocaleString (or_else (last_login usr) []) else ''First time login'')
                   in set_prop ''userInfo'' ''innerHTML'' (user_info createdDate lastLoginDate usr) p2)
            else if status_code = 401 then
              navigate ''/login''
                (removeItem ''user''
                   (removeItem ''access_token''
                      (alert (warning_sign @ '' Session expired. Please login again.'') p1)))
            else failed)"

definition no_recent_activity :: string where
  \<open>no_recent_activity = ''<p style="text-align: center; color: #999;">No recent activity</p>''\<close>

definition activity_error :: string where
  \<open>activity_error = ''<p style="color: #dc3545;">Error loading activity logs</p>''\<close>

text \<open>The fragment that \<open>loadActivityLogs\<close> writes for a list of log entries.\<close>

definition activity_logs_html :: "(string \<Rightarrow> string) \<Rightarrow> activity_log list \<Rightarrow> string" where
  "activity_logs_html toLocaleString logs =
    (if length logs = 0 then no_recent_activity
     else concat (map (activity_item toLocaleString) logs))"

definition loadActivityLogs ::
  "(string \<Rightarrow> string) \<Rightarrow> string option \<Rightarrow> activity_log list fetch_result \<Rightarrow> page \<Rightarrow> page" where
  "loadActivityLogs toLocaleString token r p =
    (let p1 = fetch \<lparr>url = ''/api/activity-logs'', request_method = GET, headers = [bearer token], body = NoBody\<rparr> p;
         failed = set_prop ''activityLogs'' ''innerHTML'' activity_error p1
     in case r of
          Rejected msg \<Rightarrow> failed
        | Response status_code content \<Rightarrow>
            if ok status_code then
              (case content of
                 BadJson msg \<Rightarrow> failed
               | Json logs \<Rightarrow>
                   set_prop ''activityLogs'' ''innerHTML'' (activity_logs_html toLocaleString logs) p1)
            else failed)"

definition dashboard_logout_click :: "string option \<Rightarrow> bool \<Rightarrow> 'a fetch_result \<Rightarrow> page \<Rightarrow> page" where
  "dashboard_logout_click token confirmed r p =
    (if confirmed then
       let p1 = fetch \<lparr>url = ''/api/logout'', request_method = POST,
                       headers = [bearer token], body = NoBody\<rparr> p;
           p2 = (case r of Rejected msg \<Rightarrow> p1 | Response status_code content \<Rightarrow> p1)
       in navigate ''/''
            (alert (check_mark @ '' Logged out successfully!'')
               (removeItem ''user'' (removeItem ''access_token'' p2)))
     else p)"

section \<open>Profile page (profile.js, first script)\<close>

text \<open>
  An \<^verbatim>\<open>async\<close> function that is called without \<^verbatim>\<open>await\<close> runs up to its first
  \<^verbatim>\<open>await\<close>, which is where the request leaves, and the rest runs as a task of its
  own once the response has arrived. \<open>loadProfile\<close> is therefore split in two: the
  request, and the handling of its outcome.
\<close>

definition profile_loadProfile_request :: "string option \<Rightarrow> page \<Rightarrow> page" where
  "profile_loadProfile_request token p =
    fetch \<lparr>url = ''/api/profile'', request_method = GET, headers = [bearer token], body = NoBody\<rparr> p"

definition verification_banner :: string where
  \<open>verification_banner = warning_sign
     @ '' Your email is not verified. <a href="#" id="resendVerification">Resend verification email</a>''\<close>

definition profile_loadProfile_response :: "user fetch_result \<Rightarrow> page \<Rightarrow> page" where
  "profile_loadProfile_response r p =
    (case r of
       Rejected msg \<Rightarrow> alert (cross_mark @ '' Error loading profile data'') p
     | Response status_code content \<Rightarrow>
         if ok status_code then
           (case content of
              BadJson msg \<Rightarrow> alert (cross_mark @ '' Error loading profile data'') p
            | Json usr \<Rightarrow>
                let p1 = set_prop ''phone'' ''value'' (or_else (phone usr) [])
                           (set_prop ''fullName'' ''value'' (full_name usr) p);
                    p2 = (if or_else (profile_photo usr) [] \<noteq> [] then
                            set_prop ''deletePhotoBtn'' ''style.display'' ''inline-block''
                              (set_prop ''photoPreview'' ''style.display'' ''block''
                                 (set_prop ''currentPhoto'' ''src'' (or_else (profile_photo usr) []) p1))
                          else p1)
                in if \<not> is_verified usr then
                     set_prop ''verificationAlert'' ''innerHTML'' verification_banner p2
                   else p2)
         else if status_code = 401 then
           navigate ''/login''
             (removeItem ''user''
                (removeItem ''access_token''
                   (alert (warning_sign @ '' Session expired. Please login again.'') p)))
         else alert (cross_mark @ '' Error loading profile data'') p)"

definition profile_loadProfile :: "string option \<Rightarrow> user fetch_result \<Rightarrow> page \<Rightarrow> page" where
  "profile_loadProfile token r p = profile_loadProfile_response r (profile_loadProfile_request token p)"

text \<open>
  The profile form. After a success the stored user, when there is one, is parsed, given
  the new name when one was entered, and stored again. A SyntaxError of \<^verbatim>\<open>JSON.parse\<close>
  is reported by the \<^verbatim>\<open>catch\<close> block; so is the TypeError that the assignment raises
  when the stored text is \<^verbatim>\<open>null\<close>, with the engine's wording, the argument
  \<open>type_error\<close>. On success \<open>loadProfile\<close> is called without \<^verbatim>\<open>await\<close>.
\<close>

definition profile_submit ::
  "string option \<Rightarrow> (string \<Rightarrow> parsed) \<Rightarrow> string \<Rightarrow> string \<Rightarrow> string \<Rightarrow> string
     \<Rightarrow> reply fetch_result \<Rightarrow> page \<Rightarrow> page" where
  "profile_submit token JSON_parse type_error fullName_value phone_value password r p =
    (let updateData_full_name = trim fullName_value;
         updateData_phone = (if trim phone_value = [] then JNull else JString (trim phone_value))
     in if password \<noteq> [] \<and> length password < 6 then
          alert (cross_mark @ '' Password must be at least 6 characters long!'') p
        else if updateData_full_name \<noteq> [] \<and> length updateData_full_name < 2 then
          alert (cross_mark @ '' Please enter a valid full name!'') p
        else
          let updateData = [(''full_name'', JString updateData_full_name), (''phone'', updateData_phone)]
                           @ (if password \<noteq> [] then [(''password'', JString password)] else []);
              originalText = submit_text p;
              p1 = disable_submit ''Updating...'' p;
              p2 = fetch \<lparr>url = ''/api/profile'', request_method = PUT,
                          headers = [json_content, bearer token],
                          body = JsonBody updateData\<rparr> p1;
              network_error = (\<lambda>msg q. alert (cross_mark @ '' Network error: '' @ msg) q);
              p3 = (case settled r of
                      Inl msg \<Rightarrow> network_error msg p2
                    | Inr (status_code, data) \<Rightarrow>
                        if ok status_code then
                          let p4 = set_prop ''password'' ''value'' []
                                     (alert (check_mark @ '' Profile updated successfully!'') p2)
                          in (case localStorage p4 ''user'' of
                                None \<Rightarrow> profile_loadProfile_request token p4
                              | Some storedUser \<Rightarrow>
                                  if storedUser = [] then profile_loadProfile_request token p4
                                  else
                                    (case JSON_parse storedUser of
                                       Raises msg \<Rightarrow> network_error msg p4
                                     | ParsedNull \<Rightarrow>
                                         if updateData_full_name \<noteq> [] then network_error type_error p4
                                         else profile_loadProfile_request token (setItem ''user'' ''null'' p4)
                                     | ParsedValue stringify \<Rightarrow>
                                         profile_loadProfile_request token
                                           (setItem ''user''
                                              (stringify (if updateData_full_name \<noteq> []
                                                          then Some updateData_full_name else None)) p4)))
                        else if status_code = 401 then
                          navigate ''/login''
                            (removeItem ''user''
                               (removeItem ''access_token''
                                  (alert (warning_sign @ '' Session expired. Please login again.'') p2)))
                        else
                          alert (cross_mark @ '' Error: '' @ or_default (detail data) ''Update failed. Please try again.'') p2)
          in restore_submit originalText p3)"

text \<open>
  The photo input. \<open>selected\<close> is \<^verbatim>\<open>e.target.files[0]\<close>. The preview is written by
  the \<^verbatim>\<open>FileReader\<close> callback; \<open>preview\<close> is the data URL it delivers, \<open>None\<close> when the
  read fails, and the callback is taken to run before the upload is answered.
\<close>

definition allowedTypes :: "string list" where
  "allowedTypes = [''image/jpeg'', ''image/jpg'', ''image/png'', ''image/webp'']"

definition photo_change ::
  "string option \<Rightarrow> upload_file option \<Rightarrow> string option \<Rightarrow> reply fetch_result \<Rightarrow> page \<Rightarrow> page" where
  "photo_change token selected preview r p =
    (case selected of
       None \<Rightarrow> p
     | Some file \<Rightarrow>
         if file_type file \<notin> set allowedTypes then
           set_prop ''photoInput'' ''value'' []
             (alert (cross_mark @ '' Please upload a valid image file (JPEG, PNG, WEBP)'') p)
         else if file_size file > 5 * 1024 * 1024 then
           set_prop ''photoInput'' ''value'' []
             (alert (cross_mark @ '' File size must be less than 5MB'') p)
         else
           let p1 = (case preview of
                       None \<Rightarrow> p
                     | Some data_url \<Rightarrow>
                         set_prop ''photoPreview'' ''style.display'' ''block''
                           (set_prop ''currentPhoto'' ''src'' data_url p));
               p2 = fetch \<lparr>url = ''/api/upload-photo'', request_method = POST,
                           headers = [bearer token],
                           body = FormData [(''file'', file)]\<rparr> p1;
               p3 = (case settled r of
                       Inl msg \<Rightarrow>
                         profile_loadProfile_request token (alert (cross_mark @ '' Upload error: '' @ msg) p2)
                     | Inr (status_code, data) \<Rightarrow>
                         if ok status_code then
                           set_prop ''deletePhotoBtn'' ''style.display'' ''inline-block''
                             (alert (check_mark @ '' '' @ str_of (message data)) p2)
                         else
                           profile_loadProfile_request token
                             (alert (cross_mark @ '' Error: '' @ or_default (detail data) ''Upload failed'') p2))
           in set_prop ''photoInput'' ''value'' [] p3)"

text \<open>\<open>confirmed\<close> is the answer to the \<^verbatim>\<open>confirm\<close> dialog.\<close>

definition delete_photo_click :: "string option \<Rightarrow> bool \<Rightarrow> reply fetch_result \<Rightarrow> page \<Rightarrow> page" where
  "delete_photo_click token confirmed r p =
    (if \<not> confirmed then p
     else
       let p1 = fetch \<lparr>url = ''/api/delete-photo'', request_method = DELETE,
                       headers = [bearer token], body = NoBody\<rparr> p
       in case settled r of
            Inl msg \<Rightarrow> alert (cross_mark @ '' Error: '' @ msg) p1
          | Inr (status_code, data) \<Rightarrow>
              if ok status_code then
                set_prop ''deletePhotoBtn'' ''style.display'' ''none''
                  (set_prop ''currentPhoto'' ''src'' ''https://via.placeholder.com/150?text=No+Photo''
                     (alert (check_mark @ '' '' @ str_of (message data)) p1))
              else
                alert (cross_mark @ '' Error: '' @ or_default (detail data) ''Delete failed'') p1)"

text \<open>
  Logout on the profile page. The response of \<^verbatim>\<open>/api/logout\<close> is awaited but never
  read, and a rejection is caught and logged: the outcome \<open>r\<close> changes nothing.
\<close>

definition profile_logout_click :: "string option \<Rightarrow> bool \<Rightarrow> 'a fetch_result \<Rightarrow> page \<Rightarrow> page" where
  "profile_logout_click token confirmed r p =
    (if confirmed then
       let p1 = fetch \<lparr>url = ''/api/logout'', request_method = POST,
                       headers = [bearer token], body = NoBody\<rparr> p;
           p2 = (case r of Rejected msg \<Rightarrow> p1 | Response status_code content \<Rightarrow> p1)
       in navigate ''/''
            (alert (check_mark @ '' Logged out successfully!'')
               (removeItem ''user'' (removeItem ''access_token'' p2)))
     else p)"

section \<open>Registration (profile.js, second script)\<close>

definition register_submit ::
  "string \<Rightarrow> string \<Rightarrow> string \<Rightarrow> string \<Rightarrow> string \<Rightarrow> reply fetch_result \<Rightarrow> page \<Rightarrow> page" where
  "register_submit email_value fullName_value password_value phone_value role_value r p =
    (let formData_email = trim email_value;
         formData_full_name = trim fullName_value;
         formData_password = password_value;
         formData_phone = (if trim phone_value = [] then JNull else JString (trim phone_value));
         formData_role = role_value
     in if length formData_password < 6 then
          alert (cross_mark @ '' Password must be at least 6 characters long!'') p
        else if length formData_full_name < 2 then
          alert (cross_mark @ '' Please enter a valid full name!'') p
        else
          let originalText = submit_text p;
              p1 = disable_submit ''Creating Account...'' p;
              p2 = fetch \<lparr>url = ''/api/register'', request_method = POST,
                          headers = [json_content],
                          body = JsonBody [(''email'', JString formData_email),
                                           (''full_name'', JString formData_full_name),
                                           (''password'', JString formData_password),
                                           (''phone'', formData_phone),
                                           (''role'', JString formData_role)]\<rparr> p1
          in case settled r of
               Inl msg \<Rightarrow>
                 restore_submit originalText
                   (alert (cross_mark @ '' Network error: '' @ msg
                      @ ''\<newline>\<newline>Please check your connection and try again.'') p2)
             | Inr (status_code, data) \<Rightarrow>
                 if ok status_code then
                   navigate ''/login'' (alert (check_mark @ '' Registration successful! You can now login.'') p2)
                 else
                   restore_submit originalText
                     (alert (cross_mark @ '' Error: '' @ or_default (detail data) ''Registration failed. Please try again.'') p2))"

section \<open>The pages as one state machine\<close>

text \<open>
  \<^verbatim>\<open>localStorage\<close> is shared by all pages and outlives each of them. An event is one
  run of one handler together with its inputs; \<open>run\<close> lets the handlers of all pages
  act on the same page record in any order and with any inputs, which covers every
  sequence of events that a browser can produce. Left out are the parts of the scripts
  that never write to the store and that no property below is about: the check for a
  token when a page loads, \<open>editAircraft\<close>, \<open>openCreateModal\<close>, the click beside the
  modal, and \<open>resendVerification\<close>.
\<close>

datatype event =
    ForgotPasswordSubmit string "reply fetch_result"
  | LoginSubmit "user \<Rightarrow> string" string string string "reply fetch_result"
  | ResetPasswordSubmit "string option" string string "reply fetch_result"
  | RegisterSubmit string string string string string "reply fetch_result"
  | DashboardLoadProfile "string \<Rightarrow> string" "string \<Rightarrow> string" "string option" "user fetch_result"
  | LoadActivityLogs "string \<Rightarrow> string" "string option" "activity_log list fetch_result"
  | DashboardLogoutClick "string option" bool "unit fetch_result"
  | ProfileLoadProfileRequest "string option"
  | ProfileLoadProfileResponse "user fetch_result"
  | ProfileSubmit "string option" "string \<Rightarrow> parsed" string string string string "reply fetch_result"
  | PhotoChange "string option" "upload_file option" "string option" "reply fetch_result"
  | DeletePhotoClick "string option" bool "reply fetch_result"
  | ProfileLogoutClick "string option" bool "unit fetch_result"
  | CalculateTotalSeats string "string \<Rightarrow> string"
  | LoadAircraftRequest
  | LoadAircraftResponse "int \<Rightarrow> string" "aircraft list fetch_result"
  | ChangeStatus "string option" int string "string option" "reply fetch_result"
  | SaveAircraft "string option" "int option" "(string \<Rightarrow> string) \<Rightarrow> bool" "string \<Rightarrow> string"
      "reply fetch_result"
  | CloseModal
  | Logout

fun handle :: "event \<Rightarrow> page \<Rightarrow> page" where
  "handle (ForgotPasswordSubmit e r) = forgot_password_submit e r"
| "handle (LoginSubmit js te e pw r) = login_submit js te e pw r"
| "handle (ResetPasswordSubmit t pw c r) = reset_password_submit t pw c r"
| "handle (RegisterSubmit e n pw ph ro r) = register_submit e n pw ph ro r"
| "handle (DashboardLoadProfile fd ft t r) = dashboard_loadProfile fd ft t r"
| "handle (LoadActivityLogs ft t r) = loadActivityLogs ft t r"
| "handle (DashboardLogoutClick t c r) = dashboard_logout_click t c r"
| "handle (ProfileLoadProfileRequest t) = profile_loadProfile_request t"
| "handle (ProfileLoadProfileResponse r) = profile_loadProfile_response r"
| "handle (ProfileSubmit t jp te n ph pw r) = profile_submit t jp te n ph pw r"
| "handle (PhotoChange t f pv r) = photo_change t f pv r"
| "handle (DeletePhotoClick t c r) = delete_photo_click t c r"
| "handle (ProfileLogoutClick t c r) = profile_logout_click t c r"
| "handle (CalculateTotalSeats ut form) = calculateTotalSeats ut form"
| "handle LoadAircraftRequest = loadAircraft_request"
| "handle (LoadAircraftResponse fn r) = loadAircraft_response fn r"
| "handle (ChangeStatus t i cur ans r) = changeStatus t i cur ans r"
| "handle (SaveAircraft t ed cv form r) = saveAircraft t ed cv form r"
| "handle CloseModal = closeModal"
| "handle Logout = logout"

definition run :: "event list \<Rightarrow> page \<Rightarrow> page" where
  "run events p = fold handle events p"

text \<open>The two keys of the session exist together or not at all.\<close>

definition session_consistent :: "page \<Rightarrow> bool" where
  "session_consistent p \<longleftrightarrow>
     (localStorage p ''access_token'' = None) = (localStorage p ''user'' = None)"


text \<open>A page on which nothing has happened yet, with the submit button idle.\<close>

definition fresh_page :: "string \<Rightarrow> page" where
  "fresh_page caption =
     \<lparr>localStorage = Map.empty, href = None, alerts = [], fetches = [],
      submit_disabled = False, submit_text = caption, dom = Map.empty, absent = {}\<rparr>"

definition sample_user :: user where
  "sample_user = \<lparr>user_id = 1, email = ''a@b.c'', full_name = ''Al'', role = ''customer'',
     phone = None, profile_photo = None, is_verified = True, created_at = None, last_login = None\<rparr>"

text \<open>A stand-in for \<^verbatim>\<open>JSON.stringify\<close> on user objects, for the examples.\<close>

definition sample_stringify :: "user \<Rightarrow> string" where
  \<open>sample_stringify u = ''{"email":"'' @ email u @ ''","full_name":"'' @ full_name u @ ''"}''\<close>

definition sample_login :: "reply fetch_result" where
  "sample_login = Response 200 (Json \<lparr>detail = Undefined, message = Undefined,
     access_token = Value ''tok'', user = Value sample_user\<rparr>)"


definition sample_aircraft :: aircraft where
  "sample_aircraft = \<lparr>aircraft_id = 7, aircraft_number = ''SK-100'', manufacturer = ''Airbus'',
     model = ''A320'', manufacturing_year = Some 2019, economy_seats = 150, business_seats = 20,
     first_class_seats = 8, total_seats = 178, status = ''active''\<rparr>"

definition sample_log :: activity_log where
  "sample_log = \<lparr>action = ''login'', details = None, timestamp = ''2024-01-05T10:00:00'',
     ip_address = None\<rparr>"

text \<open>A page of a logged-in user: both keys are stored.\<close>

definition session_page :: page where
  "session_page =
     \<lparr>localStorage = [''access_token'' \<mapsto> ''tok'', ''user'' \<mapsto> sample_stringify sample_user],
      href = None, alerts = [], fetches = [],
      submit_disabled = False, submit_text = [], dom = Map.empty, absent = {}\<rparr>"



text \<open>An aircraft form, filled in but for the economy seats, which are given apart.\<close>

definition sample_form :: "string \<Rightarrow> string \<Rightarrow> string" where
  "sample_form economy field =
     (if field = ''aircraft_number'' then ''SK-100''
      else if field = ''manufacturer'' then ''Airbus''
      else if field = ''model'' then ''A320''
      else if field = ''manufacturing_year'' then ''2019''
      else if field = ''economy_seats'' then economy
      else if field = ''business_seats'' then ''10''
      else if field = ''first_class_seats'' then ''5''
      else if field = ''status'' then ''active''
      else [])"


section \<open>Properties\<close>

lemmas page_ops =
  alert_def navigate_def fetch_def setItem_def removeItem_def set_prop_def
  disable_submit_def restore_submit_def

text \<open>
  C5. On the reset-password form, whenever the password field and the confirmation field
  differ, the submission is blocked: the handler only shows one message, so no network
  call is made, the submit button is untouched, nothing is stored and no navigation
  happens. This holds whatever each field holds and whatever the network would answer.
\<close>

theorem reset_password_mismatch_blocked:
  assumes "password \<noteq> confirmPassword"
  shows "(\<exists>msg. reset_password_submit token password confirmPassword r p = alert msg p)
       \<and> fetches (reset_password_submit token password confirmPassword r p) = fetches p"
  using assms by (auto simp: reset_password_submit_def alert_def)

theorem reset_password_mismatch_blocked_witness:
  "''secret1'' \<noteq> ''secret2''
   \<and> fetches (reset_password_submit (Some ''t'') ''secret1'' ''secret2'' (Rejected ''down'')
        (fresh_page ''Reset Password'')) = []"
  using reset_password_mismatch_blocked
    [of "''secret1''" "''secret2''" "Some ''t''" "Rejected ''down''" "fresh_page ''Reset Password''"]
  by (simp add: fresh_page_def)

text \<open>
  C4, as stated: every password shorter than six characters blocks the submission of
  the registration, reset-password and profile forms. The profile form checks the length
  only of a password that is not empty, since an empty field means that the password
  is not to be changed: with an empty password and a name of two letters the request is sent.
\<close>

theorem profile_empty_password_counterexample:
  "length ('''' :: string) < 6
   \<and> fetches (profile_submit (Some ''t'') (\<lambda>s. Raises ''bad'') ''bad'' ''Al'' '''' '''' (Rejected ''down'')
        (fresh_page ''Update Profile''))
     = [\<lparr>url = ''/api/profile'', request_method = PUT,
         headers = [(''Content-Type'', ''application/json''), (''Authorization'', ''Bearer t'')],
         body = JsonBody [(''full_name'', JString ''Al''), (''phone'', JNull)]\<rparr>]"
  by (simp add: profile_submit_def fresh_page_def trim_def is_space_def page_ops
        json_content_def bearer_def)

text \<open>
  C4, amended. A password shorter than six characters blocks the registration and the
  reset-password form, and blocks the profile form when it is not empty: the handler
  only shows the message about the length, so no network call is made and the submit
  button is left as it was, enabled.
\<close>

theorem short_password_blocked:
  assumes "length password < 6"
  shows "register_submit email_value fullName_value password phone_value role_value r p
           = alert (cross_mark @ '' Password must be at least 6 characters long!'') p
       \<and> reset_password_submit token password confirmPassword r p
           = alert (cross_mark @ '' Password must be at least 6 characters long!'') p
       \<and> (password \<noteq> [] \<longrightarrow>
            profile_submit token JSON_parse type_error fullName_value phone_value password r p
              = alert (cross_mark @ '' Password must be at least 6 characters long!'') p)
       \<and> fetches (alert (cross_mark @ '' Password must be at least 6 characters long!'') p) = fetches p
       \<and> submit_disabled (alert (cross_mark @ '' Password must be at least 6 characters long!'') p)
           = submit_disabled p"
  using assms
  by (simp add: register_submit_def reset_password_submit_def profile_submit_def alert_def)

theorem short_password_blocked_witness:
  "length ''abc'' < 6 \<and> ''abc'' \<noteq> []
   \<and> fetches (register_submit ''a@b.c'' ''Al'' ''abc'' '''' ''customer'' (Rejected ''down'')
        (fresh_page ''Register'')) = []
   \<and> fetches (reset_password_submit (Some ''t'') ''abc'' ''abc'' (Rejected ''down'')
        (fresh_page ''Register'')) = []
   \<and> fetches (profile_submit (Some ''t'') (\<lambda>s. Raises ''bad'') ''bad'' ''Al'' '''' ''abc'' (Rejected ''down'')
        (fresh_page ''Register'')) = []
   \<and> \<not> submit_disabled (profile_submit (Some ''t'') (\<lambda>s. Raises ''bad'') ''bad'' ''Al'' '''' ''abc'' (Rejected ''down'')
        (fresh_page ''Register''))"
  using short_password_blocked
    [where password = "''abc''" and email_value = "''a@b.c''" and fullName_value = "''Al''"
       and phone_value = "''''" and role_value = "''customer''" and r = "Rejected ''down''"
       and p = "fresh_page ''Register''" and token = "Some ''t''" and confirmPassword = "''abc''"
       and JSON_parse = "\<lambda>s. Raises ''bad''" and type_error = "''bad''"]
  by (simp add: fresh_page_def alert_def)

text \<open>
  C6. When the status prompt is cancelled, left empty, or answered with a text whose
  lower-case form is none of active, maintenance and retired, \<open>changeStatus\<close> only shows
  its message: no network call is issued and nothing else on the page changes.
\<close>

theorem invalid_status_rejected:
  assumes "case answer of None \<Rightarrow> True
           | Some newStatus \<Rightarrow> toLowerCase newStatus \<notin> {''active'', ''maintenance'', ''retired''}"
  shows "changeStatus token ident currentStatus answer r p = alert ''Invalid status'' p
       \<and> fetches (changeStatus token ident currentStatus answer r p) = fetches p"
  using assms
  by (auto simp: changeStatus_def statuses_def alert_def split: option.splits)

theorem invalid_status_rejected_witness:
  "toLowerCase ''Broken'' \<notin> {''active'', ''maintenance'', ''retired''}
   \<and> fetches (changeStatus (Some ''t'') 7 ''active'' (Some ''Broken'') (Rejected ''down'')
        (fresh_page [])) = []
   \<and> fetches (changeStatus (Some ''t'') 7 ''active'' None (Rejected ''down'') (fresh_page [])) = []
   \<and> fetches (changeStatus (Some ''t'') 7 ''active'' (Some '''') (Rejected ''down'') (fresh_page [])) = []"
proof -
  have low: "toLowerCase ''Broken'' \<notin> {''active'', ''maintenance'', ''retired''}"
    by code_simp
  have empty: "toLowerCase '''' \<notin> {''active'', ''maintenance'', ''retired''}"
    by code_simp
  have a: "case Some ''Broken'' of None \<Rightarrow> True
           | Some newStatus \<Rightarrow> toLowerCase newStatus \<notin> {''active'', ''maintenance'', ''retired''}"
    using low by simp
  have b: "case (None :: string option) of None \<Rightarrow> True
           | Some newStatus \<Rightarrow> toLowerCase newStatus \<notin> {''active'', ''maintenance'', ''retired''}"
    by simp
  have c: "case Some '''' of None \<Rightarrow> True
           | Some newStatus \<Rightarrow> toLowerCase newStatus \<notin> {''active'', ''maintenance'', ''retired''}"
    using empty by simp
  show ?thesis
    using low
      invalid_status_rejected [OF a, of "Some ''t''" 7 "''active''" "Rejected ''down''" "fresh_page []"]
      invalid_status_rejected [OF b, of "Some ''t''" 7 "''active''" "Rejected ''down''" "fresh_page []"]
      invalid_status_rejected [OF c, of "Some ''t''" 7 "''active''" "Rejected ''down''" "fresh_page []"]
    by (simp add: fresh_page_def alert_def)
qed

text \<open>
  The other direction: an answer whose lower-case form is one of the three statuses
  does issue the request, with the status in lower case.
\<close>

lemma valid_status_sends:
  assumes "newStatus \<noteq> []" and "toLowerCase newStatus \<in> {''active'', ''maintenance'', ''retired''}"
  shows "\<exists>rest. fetches (changeStatus token ident currentStatus (Some newStatus) r p)
           = fetches p @ \<lparr>url = API_URL @ ''/flights/aircraft/'' @ show_int ident, request_method = PUT,
                           headers = [json_content, bearer token],
                           body = JsonBody [(''status'', JString (toLowerCase newStatus))]\<rparr> # rest"
  using assms
  by (auto simp: changeStatus_def statuses_def page_ops showLoading_def hideLoading_def
        loadAircraft_request_def Let_def split: fetch_result.splits payload.splits)

subsection \<open>What each handler does to the session store\<close>

lemma localStorage_ops:
  "localStorage (alert m p) = localStorage p"
  "localStorage (navigate u p) = localStorage p"
  "localStorage (fetch rq p) = localStorage p"
  "localStorage (set_prop el k v p) = localStorage p"
  "localStorage (disable_submit c p) = localStorage p"
  "localStorage (restore_submit c p) = localStorage p"
  "localStorage (showLoading p) = localStorage p"
  "localStorage (hideLoading p) = localStorage p"
  "localStorage (closeModal p) = localStorage p"
  "localStorage (loadAircraft_request p) = localStorage p"
  "localStorage (profile_loadProfile_request t p) = localStorage p"
  by (simp_all add: page_ops showLoading_def hideLoading_def closeModal_def
        loadAircraft_request_def profile_loadProfile_request_def)

lemma storage_forgot: "localStorage (forgot_password_submit e r p) = localStorage p"
  by (simp add: forgot_password_submit_def localStorage_ops Let_def split: sum.splits)

lemma storage_reset: "localStorage (reset_password_submit t pw c r p) = localStorage p"
  by (simp add: reset_password_submit_def localStorage_ops Let_def split: sum.splits)

lemma storage_register: "localStorage (register_submit e n pw ph ro r p) = localStorage p"
  by (simp add: register_submit_def localStorage_ops Let_def split: sum.splits)

lemma storage_logs: "localStorage (loadActivityLogs ft t r p) = localStorage p"
  by (simp add: loadActivityLogs_def localStorage_ops Let_def
        split: fetch_result.splits payload.splits)

lemma storage_photo: "localStorage (photo_change t f pv r p) = localStorage p"
  by (simp add: photo_change_def localStorage_ops Let_def split: option.splits sum.splits)

lemma storage_delete_photo: "localStorage (delete_photo_click t c r p) = localStorage p"
  by (simp add: delete_photo_click_def localStorage_ops Let_def split: sum.splits)

lemma storage_calculate: "localStorage (calculateTotalSeats ut form p) = localStorage p"
  by (simp add: calculateTotalSeats_def localStorage_ops Let_def)

lemma storage_aircraft_response: "localStorage (loadAircraft_response fn r p) = localStorage p"
  by (simp add: loadAircraft_response_def updateStats_def displayAircraft_def localStorage_ops
        Let_def split: fetch_result.splits payload.splits)

lemma storage_changeStatus: "localStorage (changeStatus t i cur ans r p) = localStorage p"
  by (simp add: changeStatus_def localStorage_ops Let_def
        split: option.splits fetch_result.splits payload.splits)

lemma storage_saveAircraft: "localStorage (saveAircraft t ed v form r p) = localStorage p"
  by (simp add: saveAircraft_def localStorage_ops Let_def
        split: fetch_result.splits payload.splits)

lemmas storage_unchanged =
  storage_forgot storage_reset storage_register storage_logs storage_photo
  storage_delete_photo storage_calculate storage_aircraft_response storage_changeStatus
  storage_saveAircraft localStorage_ops

lemma consistent_login:
  "session_consistent p \<Longrightarrow> session_consistent (login_submit js te e pw r p)"
  by (simp add: login_submit_def session_consistent_def localStorage_ops setItem_def Let_def
        split: sum.splits field.splits)

lemma consistent_dashboard_loadProfile:
  "session_consistent p \<Longrightarrow> session_consistent (dashboard_loadProfile fd ft t r p)"
  by (simp add: dashboard_loadProfile_def session_consistent_def localStorage_ops removeItem_def
        Let_def split: fetch_result.splits payload.splits)

lemma consistent_profile_response:
  "session_consistent p \<Longrightarrow> session_consistent (profile_loadProfile_response r p)"
  by (simp add: profile_loadProfile_response_def session_consistent_def localStorage_ops
        removeItem_def Let_def split: fetch_result.splits payload.splits)

lemma consistent_profile_submit:
  "session_consistent p \<Longrightarrow> session_consistent (profile_submit t jp te n ph pw r p)"
  by (simp add: profile_submit_def session_consistent_def localStorage_ops
        setItem_def removeItem_def Let_def split: sum.splits option.splits parsed.splits)

lemma consistent_logouts:
  "session_consistent (dashboard_logout_click t c r p) = (if c then True else session_consistent p)"
  "session_consistent (profile_logout_click t c r' p) = (if c then True else session_consistent p)"
  "session_consistent (logout p)"
  by (simp_all add: dashboard_logout_click_def profile_logout_click_def logout_def
        session_consistent_def localStorage_ops removeItem_def Let_def)

lemma handle_consistent:
  assumes "session_consistent p"
  shows "session_consistent (handle ev p)"
proof (cases ev)
  case (LoginSubmit js te e pw r)
  with assms show ?thesis by (simp add: consistent_login)
next
  case (DashboardLoadProfile fd ft t r)
  with assms show ?thesis by (simp add: consistent_dashboard_loadProfile)
next
  case (ProfileLoadProfileResponse r)
  with assms show ?thesis by (simp add: consistent_profile_response)
next
  case (ProfileSubmit t jp te n ph pw r)
  with assms show ?thesis by (simp add: consistent_profile_submit)
next
  case (DashboardLogoutClick t c r)
  with assms show ?thesis by (simp add: consistent_logouts)
next
  case (ProfileLogoutClick t c r)
  with assms show ?thesis by (simp add: consistent_logouts)
next
  case Logout
  then show ?thesis by (simp add: consistent_logouts)
qed (use assms in \<open>simp_all add: session_consistent_def storage_unchanged\<close>)

text \<open>
  C3. The two keys of the session, the access token and the user, exist together or not
  at all: every handler of every page keeps this, whatever its inputs and whatever the
  network answers, so it holds after every sequence of events that starts from a store
  where it holds (the empty store in particular). Login writes both keys, the three
  logouts and the handling of status 401 remove both, the profile form rewrites the user
  only where one is stored, and no other handler writes to the store. The states compared
  are those between handlers; the two writes of one handler follow each other with no
  \<^verbatim>\<open>await\<close> in between.
\<close>

theorem session_keys_together:
  assumes "session_consistent p"
  shows "session_consistent (run events p)"
  using assms unfolding run_def
  by (induction events arbitrary: p) (simp_all add: handle_consistent)

theorem session_keys_together_witness:
  "session_consistent (fresh_page ''Login'')
   \<and> session_consistent (run [LoginSubmit sample_stringify ''oops'' ''a@b.c'' ''secret'' sample_login,
          ProfileLoadProfileResponse (Response 401 (BadJson ''x''))] (fresh_page ''Login''))
   \<and> localStorage (run [LoginSubmit sample_stringify ''oops'' ''a@b.c'' ''secret'' sample_login] (fresh_page ''Login''))
        ''access_token'' = Some ''tok''
   \<and> localStorage (run [LoginSubmit sample_stringify ''oops'' ''a@b.c'' ''secret'' sample_login] (fresh_page ''Login''))
        ''user'' = Some (sample_stringify sample_user)"
proof -
  have start: "session_consistent (fresh_page ''Login'')"
    by (simp add: session_consistent_def fresh_page_def)
  have token: "localStorage (run [LoginSubmit sample_stringify ''oops'' ''a@b.c'' ''secret'' sample_login] (fresh_page ''Login''))
        ''access_token'' = Some ''tok''"
    by (simp add: run_def login_submit_def sample_login_def trim_def is_space_def ok_def
          str_of_def localStorage_ops setItem_def fresh_page_def)
  have usr: "localStorage (run [LoginSubmit sample_stringify ''oops'' ''a@b.c'' ''secret'' sample_login] (fresh_page ''Login''))
        ''user'' = Some (sample_stringify sample_user)"
    by (simp add: run_def login_submit_def sample_login_def trim_def is_space_def ok_def
          str_of_def localStorage_ops setItem_def fresh_page_def)
  show ?thesis
    using start token usr
      session_keys_together [OF start, of "[LoginSubmit sample_stringify ''oops'' ''a@b.c'' ''secret'' sample_login,
          ProfileLoadProfileResponse (Response 401 (BadJson ''x''))]"]
    by simp
qed

subsection \<open>Photo upload\<close>

lemma fetches_ops:
  "fetches (alert m p) = fetches p"
  "fetches (navigate u p) = fetches p"
  "fetches (fetch rq p) = fetches p @ [rq]"
  "fetches (set_prop el k v p) = fetches p"
  "fetches (setItem key val p) = fetches p"
  "fetches (removeItem key p) = fetches p"
  "fetches (disable_submit c p) = fetches p"
  "fetches (restore_submit c p) = fetches p"
  "fetches (showLoading p) = fetches p"
  "fetches (hideLoading p) = fetches p"
  "fetches (closeModal p) = fetches p"
  by (simp_all add: page_ops showLoading_def hideLoading_def closeModal_def)

lemma photo_rejected:
  assumes "file_type f \<notin> {''image/jpeg'', ''image/jpg'', ''image/png'', ''image/webp''}
           \<or> file_size f > 5 * 1024 * 1024"
  shows "fetches (photo_change token (Some f) preview r p) = fetches p"
    and "dom (photo_change token (Some f) preview r p) (''photoInput'', ''value'') = Some []"
  using assms by (auto simp: photo_change_def allowedTypes_def page_ops)

lemma photo_accepted:
  assumes "file_type f \<in> {''image/jpeg'', ''image/jpg'', ''image/png'', ''image/webp''}"
      and "file_size f \<le> 5 * 1024 * 1024"
  shows "\<exists>rest. fetches (photo_change token (Some f) preview r p)
           = fetches p @ \<lparr>url = ''/api/upload-photo'', request_method = POST,
                           headers = [bearer token], body = FormData [(''file'', f)]\<rparr> # rest"
  using assms
  by (auto simp: photo_change_def allowedTypes_def fetches_ops profile_loadProfile_request_def
        Let_def split: option.splits sum.splits)

text \<open>
  C9. In the photo input, a request leaves the page exactly when a file is selected whose
  type is one of the four image types and whose size is at most \<open>5 * 1024 * 1024\<close> bytes,
  and then the first request is the upload of that file with the bearer token. For a
  selected file that fails either check no request is issued and the value of the file
  input is cleared.
\<close>

theorem photo_upload_guard:
  "(fetches (photo_change token selected preview r p) \<noteq> fetches p
      \<longleftrightarrow> (\<exists>f. selected = Some f
             \<and> file_type f \<in> {''image/jpeg'', ''image/jpg'', ''image/png'', ''image/webp''}
             \<and> file_size f \<le> 5 * 1024 * 1024))
   \<and> (\<forall>f. selected = Some f
          \<and> file_type f \<in> {''image/jpeg'', ''image/jpg'', ''image/png'', ''image/webp''}
          \<and> file_size f \<le> 5 * 1024 * 1024
        \<longrightarrow> (\<exists>rest. fetches (photo_change token selected preview r p)
               = fetches p @ \<lparr>url = ''/api/upload-photo'', request_method = POST,
                               headers = [bearer token], body = FormData [(''file'', f)]\<rparr> # rest))
   \<and> (\<forall>f. selected = Some f
          \<and> (file_type f \<notin> {''image/jpeg'', ''image/jpg'', ''image/png'', ''image/webp''}
             \<or> file_size f > 5 * 1024 * 1024)
        \<longrightarrow> fetches (photo_change token selected preview r p) = fetches p
          \<and> dom (photo_change token selected preview r p) (''photoInput'', ''value'') = Some [])"
proof (cases selected)
  case None
  then show ?thesis by (simp add: photo_change_def)
next
  case (Some f)
  show ?thesis
  proof (cases "file_type f \<in> {''image/jpeg'', ''image/jpg'', ''image/png'', ''image/webp''}
                \<and> file_size f \<le> 5 * 1024 * 1024")
    case True
    then obtain rest where "fetches (photo_change token (Some f) preview r p)
           = fetches p @ \<lparr>url = ''/api/upload-photo'', request_method = POST,
                           headers = [bearer token], body = FormData [(''file'', f)]\<rparr> # rest"
      using photo_accepted by blast
    with True Some show ?thesis by auto
  next
    case False
    then have "fetches (photo_change token (Some f) preview r p) = fetches p"
      and "dom (photo_change token (Some f) preview r p) (''photoInput'', ''value'') = Some []"
      using photo_rejected [of f token preview r p] by auto
    with False Some show ?thesis by auto
  qed
qed

theorem photo_upload_guard_witness:
  "fetches (photo_change (Some ''t'') (Some \<lparr>file_type = ''image/gif'', file_size = 10\<rparr>)
      None (Rejected ''down'') (fresh_page [])) = []
   \<and> dom (photo_change (Some ''t'') (Some \<lparr>file_type = ''image/gif'', file_size = 10\<rparr>)
      None (Rejected ''down'') (fresh_page [])) (''photoInput'', ''value'') = Some []
   \<and> fetches (photo_change (Some ''t'') (Some \<lparr>file_type = ''image/png'', file_size = 5242881\<rparr>)
      None (Rejected ''down'') (fresh_page [])) = []
   \<and> fetches (photo_change (Some ''t'') (Some \<lparr>file_type = ''image/png'', file_size = 5242880\<rparr>)
      None (Rejected ''down'') (fresh_page [])) \<noteq> []"
  using
    photo_upload_guard [of "Some ''t''" "Some \<lparr>file_type = ''image/gif'', file_size = 10\<rparr>"
      None "Rejected ''down''" "fresh_page []"]
    photo_upload_guard [of "Some ''t''" "Some \<lparr>file_type = ''image/png'', file_size = 5242881\<rparr>"
      None "Rejected ''down''" "fresh_page []"]
    photo_upload_guard [of "Some ''t''" "Some \<lparr>file_type = ''image/png'', file_size = 5242880\<rparr>"
      None "Rejected ''down''" "fresh_page []"]
  by (simp add: fresh_page_def)

subsection \<open>Logout\<close>

text \<open>
  C10. Once the user has confirmed, the logout of the dashboard and of the profile page
  removes both keys and navigates to the landing page, whatever became of the call to
  \<^verbatim>\<open>/api/logout\<close>: a rejected call and a response of any status give the same page.
  The logout of the aircraft page asks nothing and calls nothing: it removes both keys
  and navigates to the login page.
\<close>

theorem logout_clears_session:
  "localStorage (dashboard_logout_click token True r p) ''access_token'' = None
   \<and> localStorage (dashboard_logout_click token True r p) ''user'' = None
   \<and> href (dashboard_logout_click token True r p) = Some ''/''
   \<and> dashboard_logout_click token True r p = dashboard_logout_click token True (Rejected msg) p
   \<and> localStorage (profile_logout_click token True r p) ''access_token'' = None
   \<and> localStorage (profile_logout_click token True r p) ''user'' = None
   \<and> href (profile_logout_click token True r p) = Some ''/''
   \<and> profile_logout_click token True r p = profile_logout_click token True (Rejected msg) p
   \<and> localStorage (logout p) ''access_token'' = None
   \<and> localStorage (logout p) ''user'' = None
   \<and> href (logout p) = Some ''/login''"
  by (simp add: dashboard_logout_click_def profile_logout_click_def logout_def page_ops Let_def
        split: fetch_result.splits)

theorem logout_clears_session_witness:
  "localStorage (dashboard_logout_click (Some ''tok'') True (Rejected ''Failed to fetch'' :: reply fetch_result)
      (run [LoginSubmit sample_stringify ''oops'' ''a@b.c'' ''secret'' sample_login] (fresh_page ''Login'')))
      ''access_token'' = None
   \<and> localStorage (dashboard_logout_click (Some ''tok'') True (Rejected ''Failed to fetch'' :: reply fetch_result)
      (run [LoginSubmit sample_stringify ''oops'' ''a@b.c'' ''secret'' sample_login] (fresh_page ''Login'')))
      ''user'' = None
   \<and> href (profile_logout_click (Some ''tok'') True (Rejected ''Failed to fetch'' :: reply fetch_result)
      (run [LoginSubmit sample_stringify ''oops'' ''a@b.c'' ''secret'' sample_login] (fresh_page ''Login''))) = Some ''/''"
  using logout_clears_session [of "Some ''tok''" "Rejected ''Failed to fetch'' :: reply fetch_result"
      "run [LoginSubmit sample_stringify ''oops'' ''a@b.c'' ''secret'' sample_login] (fresh_page ''Login'')"
      "''Failed to fetch''"]
  by (elim conjE, intro conjI) assumption+

subsection \<open>Failed submissions\<close>












subsection \<open>Empty lists\<close>

lemma dom_ops:
  "dom (alert m p) = dom p"
  "dom (fetch rq p) = dom p"
  "dom (set_prop el k v p) = (dom p)((el, k) \<mapsto> v)"
  "absent (alert m p) = absent p"
  "absent (fetch rq p) = absent p"
  "absent (set_prop el k v p) = absent p"
  by (simp_all add: page_ops)

lemma aircraft_card_start: "\<exists>rest. aircraft_card a = ''\<newline>        <'' @ rest"
  by (simp add: aircraft_card_def)

lemma aircraft_grid_distinct:
  assumes "aircraft \<noteq> []"
  shows "aircraft_grid_html aircraft \<noteq> aircraft_empty_state"
proof
  assume same: "aircraft_grid_html aircraft = aircraft_empty_state"
  obtain a rest where split: "aircraft = a # rest"
    using assms by (cases aircraft) auto
  obtain r1 where "aircraft_card a = ''\<newline>        <'' @ r1"
    using aircraft_card_start by blast
  with split have "aircraft_grid_html aircraft ! 9 = CHR ''<''"
    by (simp add: aircraft_grid_html_def)
  moreover have "aircraft_empty_state ! 9 = CHR '' ''"
    by (simp add: aircraft_empty_state_def)
  ultimately show False
    using same by simp
qed

lemma activity_item_start: "\<exists>rest. activity_item f entry = ''\<newline>'' @ rest"
  by (simp add: activity_item_def)

lemma activity_logs_distinct:
  assumes "logs \<noteq> []"
  shows "activity_logs_html f logs \<noteq> no_recent_activity"
proof
  assume same: "activity_logs_html f logs = no_recent_activity"
  obtain entry rest where split: "logs = entry # rest"
    using assms by (cases logs) auto
  obtain r1 where "activity_item f entry = ''\<newline>'' @ r1"
    using activity_item_start by blast
  with split have "activity_logs_html f logs ! 0 = CHR ''\<newline>''"
    by (simp add: activity_logs_html_def)
  moreover have "no_recent_activity ! 0 = CHR ''<''"
    by (simp add: no_recent_activity_def)
  ultimately show False
    using same by simp
qed

lemma updateStats_grid:
  "dom (updateStats fn aircraft p) (''aircraftGrid'', ''innerHTML'') = dom p (''aircraftGrid'', ''innerHTML'')"
  by (simp add: updateStats_def dom_ops Let_def)

text \<open>
  C8. For an empty list of aircraft \<open>displayAircraft\<close> writes the empty-state fragment into
  the grid (when the page has a grid), also when it is reached through \<open>loadAircraft\<close>;
  for an empty list of log entries \<open>loadActivityLogs\<close> writes the fragment that says
  there was no recent activity. Neither fragment is empty, each differs from what a list
  with at least one entry gives, and each differs from the fragment shown for a failed load.
\<close>

theorem empty_list_renders_empty_state:
  "(''aircraftGrid'' \<notin> absent p \<longrightarrow>
      dom (displayAircraft [] p) (''aircraftGrid'', ''innerHTML'') = Some aircraft_empty_state)
   \<and> (''aircraftGrid'' \<notin> absent p \<and> ok status_code \<longrightarrow>
      dom (loadAircraft fn (Response status_code (Json [])) p) (''aircraftGrid'', ''innerHTML'')
        = Some aircraft_empty_state)
   \<and> aircraft_empty_state \<noteq> []
   \<and> (\<forall>aircraft. aircraft \<noteq> [] \<longrightarrow> aircraft_grid_html aircraft \<noteq> aircraft_empty_state)
   \<and> aircraft_empty_state \<noteq> aircraft_load_error msg
   \<and> (ok status_code \<longrightarrow>
      dom (loadActivityLogs f token (Response status_code (Json [])) p) (''activityLogs'', ''innerHTML'')
        = Some no_recent_activity)
   \<and> no_recent_activity \<noteq> []
   \<and> (\<forall>logs. logs \<noteq> [] \<longrightarrow> activity_logs_html f logs \<noteq> no_recent_activity)
   \<and> no_recent_activity \<noteq> activity_error"
proof (intro conjI impI allI)
  assume "''aircraftGrid'' \<notin> absent p"
  then show "dom (displayAircraft [] p) (''aircraftGrid'', ''innerHTML'') = Some aircraft_empty_state"
    by (simp add: displayAircraft_def aircraft_grid_html_def dom_ops)
next
  assume "''aircraftGrid'' \<notin> absent p \<and> ok status_code"
  then show "dom (loadAircraft fn (Response status_code (Json [])) p) (''aircraftGrid'', ''innerHTML'')
        = Some aircraft_empty_state"
    by (simp add: loadAircraft_def loadAircraft_request_def loadAircraft_response_def
          updateStats_grid displayAircraft_def aircraft_grid_html_def dom_ops)
next
  show "aircraft_empty_state \<noteq> []"
    by (simp add: aircraft_empty_state_def)
next
  fix aircraft :: "aircraft list"
  assume "aircraft \<noteq> []"
  then show "aircraft_grid_html aircraft \<noteq> aircraft_empty_state"
    by (rule aircraft_grid_distinct)
next
  show "aircraft_empty_state \<noteq> aircraft_load_error msg"
    by (simp add: aircraft_empty_state_def aircraft_load_error_def airplane_def cross_mark_def)
next
  assume "ok status_code"
  then show "dom (loadActivityLogs f token (Response status_code (Json [])) p) (''activityLogs'', ''innerHTML'')
        = Some no_recent_activity"
    by (simp add: loadActivityLogs_def activity_logs_html_def dom_ops)
next
  show "no_recent_activity \<noteq> []"
    by (simp add: no_recent_activity_def)
next
  fix logs :: "activity_log list"
  assume "logs \<noteq> []"
  then show "activity_logs_html f logs \<noteq> no_recent_activity"
    by (rule activity_logs_distinct)
next
  show "no_recent_activity \<noteq> activity_error"
    by (simp add: no_recent_activity_def activity_error_def)
qed

theorem empty_list_renders_empty_state_witness:
  "''aircraftGrid'' \<notin> absent (fresh_page []) \<and> ok 200
   \<and> dom (displayAircraft [] (fresh_page [])) (''aircraftGrid'', ''innerHTML'') = Some aircraft_empty_state
   \<and> dom (loadAircraft show_int (Response 200 (Json [])) (fresh_page [])) (''aircraftGrid'', ''innerHTML'')
        = Some aircraft_empty_state
   \<and> dom (loadActivityLogs id (Some ''tok'') (Response 200 (Json [])) (fresh_page []))
        (''activityLogs'', ''innerHTML'') = Some no_recent_activity
   \<and> aircraft_grid_html [sample_aircraft] \<noteq> aircraft_empty_state
   \<and> activity_logs_html id [sample_log] \<noteq> no_recent_activity"
proof -
  have grid: "''aircraftGrid'' \<notin> absent (fresh_page [])"
    by (simp add: fresh_page_def)
  have ok: "ok 200"
    by (simp add: ok_def)
  have a: "[sample_aircraft] \<noteq> []" and l: "[sample_log] \<noteq> []"
    by simp_all
  show ?thesis
    using grid ok a l
      empty_list_renders_empty_state [of "fresh_page []" 200 show_int "[]" id "Some ''tok''"]
    by blast
qed

subsection \<open>Expired sessions\<close>

lemma href_ops:
  "href (alert m p) = href p"
  "href (navigate u p) = Some u"
  "href (fetch rq p) = href p"
  "href (set_prop el k v p) = href p"
  "href (setItem key val p) = href p"
  "href (removeItem key p) = href p"
  "href (disable_submit c p) = href p"
  "href (restore_submit c p) = href p"
  "href (showLoading p) = href p"
  "href (hideLoading p) = href p"
  "href (closeModal p) = href p"
  by (simp_all add: page_ops showLoading_def hideLoading_def closeModal_def)

text \<open>
  The three places that do treat status 401 as the end of the session: \<open>loadProfile\<close> on
  the dashboard and on the profile page, and the profile form. Each tests for 401 before
  its general error branch, removes both keys and navigates to the login page.
\<close>

lemma expired_session_handled:
  "localStorage (dashboard_loadProfile fd ft token (Response 401 content) p) ''access_token'' = None"
  "localStorage (dashboard_loadProfile fd ft token (Response 401 content) p) ''user'' = None"
  "href (dashboard_loadProfile fd ft token (Response 401 content) p) = Some ''/login''"
  "localStorage (profile_loadProfile token (Response 401 content) p) ''access_token'' = None"
  "localStorage (profile_loadProfile token (Response 401 content) p) ''user'' = None"
  "href (profile_loadProfile token (Response 401 content) p) = Some ''/login''"
  by (simp_all add: dashboard_loadProfile_def profile_loadProfile_def
        profile_loadProfile_response_def profile_loadProfile_request_def ok_def
        localStorage_ops href_ops removeItem_def navigate_def Let_def)

lemma expired_session_handled_profile_form:
  assumes "pw = [] \<or> 6 \<le> length pw" and "trim n = [] \<or> 2 \<le> length (trim n)"
  shows "localStorage (profile_submit token jp te n ph pw (Response 401 (Json data)) p) ''access_token'' = None
       \<and> localStorage (profile_submit token jp te n ph pw (Response 401 (Json data)) p) ''user'' = None
       \<and> href (profile_submit token jp te n ph pw (Response 401 (Json data)) p) = Some ''/login''"
proof -
  have valid: "(pw \<noteq> [] \<and> length pw < 6) = False"
    "(trim n \<noteq> [] \<and> length (trim n) < 2) = False"
    using assms by auto
  show ?thesis
    by (simp add: profile_submit_def valid ok_def localStorage_ops href_ops removeItem_def
          navigate_def restore_submit_def Let_def)
qed

text \<open>
  The other authenticated calls have no branch for 401, nor any other way to the session:
  whatever the answer, they leave the store and the location alone.
\<close>

lemma href_logs: "href (loadActivityLogs ft token r p) = href p"
  by (simp add: loadActivityLogs_def href_ops Let_def split: fetch_result.splits payload.splits)

lemma href_changeStatus: "href (changeStatus token ident cur answer r p) = href p"
  by (simp add: changeStatus_def href_ops loadAircraft_request_def Let_def
        split: option.splits fetch_result.splits payload.splits)

lemma href_saveAircraft: "href (saveAircraft token ed valid form r p) = href p"
  by (simp add: saveAircraft_def href_ops loadAircraft_request_def Let_def
        split: fetch_result.splits payload.splits)

lemma href_delete_photo: "href (delete_photo_click token confirmed r p) = href p"
  by (simp add: delete_photo_click_def href_ops Let_def split: sum.splits)

lemma href_photo: "href (photo_change token selected preview r p) = href p"
  by (simp add: photo_change_def href_ops profile_loadProfile_request_def Let_def
        split: option.splits sum.splits)

lemmas expired_session_ignored =
  storage_logs href_logs storage_changeStatus href_changeStatus
  storage_saveAircraft href_saveAircraft storage_delete_photo href_delete_photo
  storage_photo href_photo

text \<open>
  C1, at an input where the code departs from it. The dashboard of a logged-in user asks
  for the activity log and is answered with status 401: both keys stay in the store and
  no navigation is requested, only the error fragment is shown. On the same page, with
  the same answer, \<open>loadProfile\<close> removes both keys and navigates to the login page.
\<close>

theorem activity_logs_401_keeps_session:
  "localStorage (loadActivityLogs id (Some ''tok'') (Response 401 (Json [])) session_page)
      ''access_token'' = Some ''tok''
   \<and> localStorage (loadActivityLogs id (Some ''tok'') (Response 401 (Json [])) session_page)
      ''user'' = Some (sample_stringify sample_user)
   \<and> href (loadActivityLogs id (Some ''tok'') (Response 401 (Json [])) session_page) = None
   \<and> dom (loadActivityLogs id (Some ''tok'') (Response 401 (Json [])) session_page)
      (''activityLogs'', ''innerHTML'') = Some activity_error
   \<and> localStorage (dashboard_loadProfile id id (Some ''tok'') (Response 401 (BadJson [])) session_page)
      ''access_token'' = None
   \<and> localStorage (dashboard_loadProfile id id (Some ''tok'') (Response 401 (BadJson [])) session_page)
      ''user'' = None
   \<and> href (dashboard_loadProfile id id (Some ''tok'') (Response 401 (BadJson [])) session_page)
      = Some ''/login''"
  by (simp add: loadActivityLogs_def dashboard_loadProfile_def ok_def page_ops session_page_def)

subsection \<open>Seat counts\<close>

text \<open>A non-negative integer written in decimal digits is parsed back to itself.\<close>

lemma below_ten: "k < 10 \<Longrightarrow> k \<in> {0, 1, 2, 3, 4, 5, 6, 7, 8, 9 :: nat}"
  by auto

lemma digit_char_value:
  assumes "k < 10"
  shows "digit_value (''0123456789'' ! k) = Some k"
  using below_ten [OF assms] by (auto simp: digit_value_def)

lemma digit_char_decimal:
  assumes "k < 10"
  shows "''0123456789'' ! k \<in> set ''0123456789''"
  using below_ten [OF assms] by auto

lemma decimal_is_digit:
  assumes "c \<in> set ''0123456789''"
  shows "is_digit 10 c" and "\<not> is_space c"
    and "c \<noteq> CHR ''-''" and "c \<noteq> CHR ''+''" and "c \<noteq> CHR ''x''" and "c \<noteq> CHR ''X''"
  using assms by (auto simp: is_digit_def digit_value_def is_space_def)

lemma show_nat_decimal: "set (show_nat n) \<subseteq> set ''0123456789''"
proof (induction n rule: show_nat.induct)
  case (1 n)
  show ?case
  proof (cases "n < 10")
    case True
    then have "''0123456789'' ! n \<in> set ''0123456789''"
      by (rule digit_char_decimal)
    with True show ?thesis
      by (subst show_nat.simps) simp
  next
    case False
    have "n mod 10 < 10" by simp
    then have "''0123456789'' ! (n mod 10) \<in> set ''0123456789''"
      by (rule digit_char_decimal)
    with False 1 show ?thesis
      by (subst show_nat.simps) simp
  qed
qed

lemma show_nat_not_empty: "show_nat n \<noteq> []"
  by (subst show_nat.simps) simp

lemma digits_value_snoc:
  "digits_value radix (ds @ [c])
     = digits_value radix ds * radix + (case digit_value c of None \<Rightarrow> 0 | Some d \<Rightarrow> d)"
  by (simp add: digits_value_def)

lemma digits_value_show_nat: "digits_value 10 (show_nat n) = n"
proof (induction n rule: show_nat.induct)
  case (1 n)
  show ?case
  proof (cases "n < 10")
    case True
    then show ?thesis
      by (subst show_nat.simps) (simp add: digits_value_def digit_char_value)
  next
    case False
    have "n mod 10 < 10" by simp
    then have "digit_value (''0123456789'' ! (n mod 10)) = Some (n mod 10)"
      by (rule digit_char_value)
    with False 1 show ?thesis
      by (subst show_nat.simps) (simp add: digits_value_snoc)
  qed
qed

lemma parseInt_show_nat:
  assumes "int n \<le> MAX_SAFE_INTEGER"
  shows "parseInt (show_nat n) = Num (int n)"
proof -
  let ?s = "show_nat n"
  have dec: "set ?s \<subseteq> set ''0123456789''"
    by (rule show_nat_decimal)
  obtain c rest where s: "?s = c # rest"
    using show_nat_not_empty [of n] by (cases ?s) auto
  have "c \<in> set ''0123456789''"
    using dec s by auto
  then have c: "\<not> is_space c" "c \<noteq> CHR ''-''" "c \<noteq> CHR ''+''"
    by (rule decimal_is_digit)+
  have not_hex: "take 2 ?s \<noteq> ''0x''" "take 2 ?s \<noteq> ''0X''"
  proof -
    have sub: "set (take 2 ?s) \<subseteq> set ''0123456789''"
      using set_take_subset [of 2 ?s] dec by blast
    show "take 2 ?s \<noteq> ''0x''"
    proof
      assume "take 2 ?s = ''0x''"
      with sub have "CHR ''x'' \<in> set ''0123456789''" by simp
      then show False by simp
    qed
    show "take 2 ?s \<noteq> ''0X''"
    proof
      assume "take 2 ?s = ''0X''"
      with sub have "CHR ''X'' \<in> set ''0123456789''" by simp
      then show False by simp
    qed
  qed
  have all_digits: "takeWhile (is_digit 10) ?s = ?s"
    using dec decimal_is_digit(1) by (auto simp: takeWhile_eq_all_conv)
  have skip: "dropWhile is_space ?s = ?s"
    using s c by simp
  have sign: "take 1 ?s \<noteq> ''-''" "take 1 ?s \<noteq> ''+''"
    using s c by simp_all
  have "parse_digits 10 ?s = Some n"
    by (simp add: parse_digits_def all_digits show_nat_not_empty digits_value_show_nat)
  then show ?thesis
    using assms skip sign not_hex
    by (simp add: parseInt_def safe_def MAX_SAFE_INTEGER_def)
qed

lemma parseInt_empty: "parseInt [] = NaN"
  by (simp add: parseInt_def parse_digits_def)


text \<open>
  A form that the browser judges invalid is not submitted, whatever its constraints are.
\<close>

lemma invalid_form_not_sent:
  assumes "\<not> checkValidity form"
  shows "saveAircraft token ed checkValidity form r p = p"
  using assms by (simp add: saveAircraft_def)

text \<open>
  With an empty seat field, no number is ever sent as the total, whatever the form's
  constraints are: either the form is judged invalid and the page stays as it was, or
  the request carries \<^verbatim>\<open>null\<close> as the total, since \<^verbatim>\<open>parseInt\<close> of the empty string is
  \<^verbatim>\<open>NaN\<close> and \<open>saveAircraft\<close> puts no default in its place.
\<close>

lemma plus_number_NaN:
  "plus_number (plus_number NaN b) f = NaN"
  "plus_number (plus_number e NaN) f = NaN"
  "plus_number (plus_number e b) NaN = NaN"
proof -
  show "plus_number (plus_number NaN b) f = NaN"
    by simp
  have right: "plus_number x NaN = NaN" for x
    by (cases x) simp_all
  then show "plus_number (plus_number e NaN) f = NaN"
    by simp
  from right show "plus_number (plus_number e b) NaN = NaN" .
qed

lemma empty_seat_field_total:
  assumes "form ''economy_seats'' = [] \<or> form ''business_seats'' = []
         \<or> form ''first_class_seats'' = []"
  shows "saveAircraft token ed checkValidity form r p = p
       \<or> (\<exists>rq rest fields.
             fetches (saveAircraft token ed checkValidity form r p) = fetches p @ rq # rest
           \<and> body rq = JsonBody fields
           \<and> map_of fields ''total_seats'' = Some JNull)"
proof (cases "checkValidity form")
  case False
  then show ?thesis
    by (simp add: invalid_form_not_sent)
next
  case True
  have total: "plus_number (plus_number (parseInt (form ''economy_seats''))
      (parseInt (form ''business_seats''))) (parseInt (form ''first_class_seats'')) = NaN"
    using assms by (auto simp: parseInt_empty plus_number_NaN)
  have "\<exists>rq rest fields.
             fetches (saveAircraft token ed checkValidity form r p) = fetches p @ rq # rest
           \<and> body rq = JsonBody fields
           \<and> map_of fields ''total_seats'' = Some JNull"
  proof (cases r)
    case (Rejected msg)
    with True total show ?thesis
      by (simp add: saveAircraft_def fetches_ops Let_def)
  next
    case (Response status_code content)
    with True total show ?thesis
      by (cases content) (simp_all add: saveAircraft_def fetches_ops loadAircraft_request_def Let_def)
  qed
  then show ?thesis ..
qed

text \<open>
  The total shown in the form while typing does count an empty field as zero: with the
  economy field empty and 10 and 5 in the other two, \<open>calculateTotalSeats\<close> shows 15.
\<close>

lemma preview_counts_empty_as_zero:
  "dom (calculateTotalSeats ut (sample_form []) (fresh_page [])) (''totalSeatsCalc'', ''textContent'')
     = Some ''15''"
proof -
  have "parseInt ''10'' = Num 10" and "parseInt ''5'' = Num 5"
    using parseInt_show_nat [of 10] parseInt_show_nat [of 5]
    by (simp_all add: show_nat.simps MAX_SAFE_INTEGER_def)
  then show ?thesis
    by (simp add: calculateTotalSeats_def sample_form_def parseInt_empty safe_def
          MAX_SAFE_INTEGER_def dom_ops show_int_def show_nat.simps fresh_page_def)
qed




end
